theory Spec2Isabelle
  imports Main "HOL-Library.Word" "HOL-Library.List_Lexorder" "HOL-Library.Char_ord"
begin

section \<open>Data model\<close>

text \<open>
  The development embeds two Go files of the Doris operator:
  \<^verbatim>\<open>internal/reconciler/doriscluster_reconciler.go\<close> (the cluster reconciler and its
  five stage functions) and \<^verbatim>\<open>internal/transformer/fe_resources.go\<close> (the builders of
  the FE objects).

  Conventions.
  \<^item> A Go \<^verbatim>\<open>map[string]string\<close> is a map \<open>string \<rightharpoonup> string\<close>. A nil map and an empty
    map read alike, so maps that are only read are plain maps; the one map the code
    assigns into by index (\<^verbatim>\<open>ObjectMeta.Annotations\<close>) is an \<open>option\<close>, \<open>None\<close> being the
    nil map, because an assignment into a nil map panics.
  \<^item> A Go pointer that may be nil is an \<open>option\<close>.
  \<^item> \<^verbatim>\<open>int32\<close> is \<open>32 word\<close>.
  \<^item> A Go \<^verbatim>\<open>error\<close> is its message; the nil error is \<open>None\<close>.
  \<^item> A run-time panic is the left summand of the result of a stage function.
\<close>

type_synonym int32 = "32 word"
type_synonym gomap = "string \<rightharpoonup> string"
type_synonym error = string

subsection \<open>Kubernetes objects\<close>

text \<open>\<^verbatim>\<open>types.NamespacedName\<close>, the key of an object in the object store.\<close>

record NamespacedName =
  nn_Namespace :: string
  nn_Name :: string

text \<open>
  \<^verbatim>\<open>metav1.ObjectMeta\<close>. A struct literal that does not mention \<^verbatim>\<open>Annotations\<close> leaves it
  nil (\<open>None\<close>) and leaves \<^verbatim>\<open>OwnerReferences\<close> empty.
\<close>

record ObjectMeta =
  Name :: string
  Namespace :: string
  Labels :: gomap
  Annotations :: "gomap option"
  OwnerReferences :: "NamespacedName list"

record Secret =
  sec_ObjectMeta :: ObjectMeta
  StringData :: gomap

record ConfigMap =
  cm_ObjectMeta :: ObjectMeta
  Data :: gomap

record ServicePort =
  sp_Name :: string
  Port :: int32
  NodePort :: int32

record ServiceSpec =
  Ports :: "ServicePort list"
  svc_Selector :: gomap
  svc_Type :: string
  ClusterIP :: string
  ExternalTrafficPolicy :: string

record Service =
  svc_ObjectMeta :: ObjectMeta
  svc_Spec :: ServiceSpec

text \<open>
  Values the builders only pass through from the cluster specification are kept
  opaque: an affinity, a toleration, a host alias and a resource quantity are
  represented by a string.
\<close>

type_synonym Affinity = string
type_synonym Toleration = string
type_synonym HostAlias = string
type_synonym Quantity = string

datatype VolumeSource =
    ConfigMapVolumeSource string
  | EmptyDirVolumeSource string
  | OtherVolumeSource string

record Volume =
  vol_Name :: string
  vol_Source :: VolumeSource

record VolumeMount =
  vm_Name :: string
  MountPath :: string

text \<open>
  \<^verbatim>\<open>corev1.EnvVar\<close>: a literal value, or a reference to a key of a secret
  (\<^verbatim>\<open>ValueFrom.SecretKeyRef\<close>: secret name and key).
\<close>

record EnvVar =
  env_Name :: string
  env_Value :: string
  SecretKeyRef :: "(string \<times> string) option"

record ContainerPort =
  cp_Name :: string
  cp_ContainerPort :: int32

text \<open>\<^verbatim>\<open>corev1.Probe\<close> with a TCP socket handler.\<close>

record Probe =
  TCPSocketPort :: int
  InitialDelaySeconds :: int32
  TimeoutSeconds :: int32
  PeriodSeconds :: int32
  SuccessThreshold :: int32
  FailureThreshold :: int32

record Container =
  c_Name :: string
  Image :: string
  c_ImagePullPolicy :: string
  c_Requests :: "string \<rightharpoonup> Quantity"
  c_Ports :: "ContainerPort list"
  Env :: "EnvVar list"
  VolumeMounts :: "VolumeMount list"
  ReadinessProbe :: "Probe option"

record PodSpec =
  Volumes :: "Volume list"
  InitContainers :: "Container list"
  Containers :: "Container list"
  pod_ImagePullSecrets :: "string list"
  ServiceAccountName :: string
  pod_Affinity :: "Affinity option"
  pod_Tolerations :: "Toleration list"
  pod_PriorityClassName :: string
  pod_HostAliases :: "HostAlias list"

record PodTemplateSpec =
  tpl_ObjectMeta :: ObjectMeta
  tpl_Spec :: PodSpec

record PersistentVolumeClaim =
  pvc_Name :: string
  AccessModes :: "string list"
  pvc_StorageClassName :: "string option"
  pvc_Requests :: "string \<rightharpoonup> Quantity"

text \<open>
  \<^verbatim>\<open>appv1.StatefulSet\<close>. \<^verbatim>\<open>Replicas\<close> is a \<^verbatim>\<open>*int32\<close>. The object has two annotation maps:
  its own (\<open>Annotations (sts_ObjectMeta s)\<close>, which Go also reaches as the promoted
  field \<^verbatim>\<open>statefulSet.Annotations\<close>) and the pod template's
  (\<open>Annotations (tpl_ObjectMeta (Template (sts_Spec s)))\<close>, in Go
  \<^verbatim>\<open>statefulSet.Spec.Template.Annotations\<close>).
\<close>

record StatefulSetSpec =
  Replicas :: "int32 option"
  ServiceName :: string
  sts_Selector :: gomap
  VolumeClaimTemplates :: "PersistentVolumeClaim list"
  Template :: PodTemplateSpec
  UpdateStrategy :: string

record StatefulSet =
  sts_ObjectMeta :: ObjectMeta
  sts_Spec :: StatefulSetSpec

subsection \<open>The cluster specification\<close>

text \<open>The user's overrides of the FE service (\<^verbatim>\<open>cr.Spec.FE.Service\<close>).\<close>

record FeServiceSpec =
  fesvc_Type :: string
  fesvc_ExternalTrafficPolicy :: "string option"
  QueryPort :: "int32 option"
  HttpPort :: "int32 option"

record FESpec =
  fe_Replicas :: int32
  fe_Configs :: gomap
  fe_Service :: "FeServiceSpec option"
  fe_StorageClassName :: "string option"
  fe_Requests :: "string \<rightharpoonup> Quantity"
  fe_AdditionalVolumes :: "Volume list"
  fe_AdditionalEnvs :: "EnvVar list"
  fe_AdditionalVolumeMounts :: "VolumeMount list"
  fe_AdditionalContainers :: "Container list"
  fe_AdditionalInitContainers :: "Container list"
  fe_HostAliases :: "HostAlias list"
  fe_ServiceAccount :: string
  fe_Affinity :: "Affinity option"
  fe_Tolerations :: "Toleration list"
  fe_PriorityClassName :: string
  fe_StatefulSetUpdateStrategy :: "string option"

text \<open>
  The sub-specifications of BE, CN and Broker are read only by builders that are not
  part of the two files; the reconciler itself only tests them against nil.
\<close>

record BESpec =
  be_Replicas :: int32
  be_Configs :: gomap

record CNSpec =
  cn_Replicas :: int32
  cn_Configs :: gomap

record BrokerSpec =
  broker_Replicas :: int32
  broker_Configs :: gomap

record HadoopConfSpec =
  Hosts :: "HostAlias list"
  Config :: gomap

record DorisClusterSpec =
  FE :: "FESpec option"
  BE :: "BESpec option"
  CN :: "CNSpec option"
  Broker :: "BrokerSpec option"
  HadoopConf :: "HadoopConfSpec option"
  ImagePullPolicy :: string
  ImagePullSecrets :: "string list"
  ServiceAccount :: string
  Affinity :: "Affinity option"
  Tolerations :: "Toleration list"
  PriorityClassName :: string
  StatefulSetUpdateStrategy :: "string option"

record DorisCluster =
  cr_ObjectMeta :: ObjectMeta
  Spec :: DorisClusterSpec

text \<open>
  A \<^verbatim>\<open>DorisAutoScaler\<close> resource, known here only by its key.
\<close>

datatype DorisAutoScaler = DorisAutoScaler NamespacedName

subsection \<open>Parts of the repository outside the two files\<close>

text \<open>
  The two files call functions and read constants of the repository that are defined
  elsewhere. They are parameters of the embedding, grouped by Go package; nothing is
  assumed about them unless a theorem says so.
\<close>

text \<open>
  Package \<^verbatim>\<open>util\<close>, the methods and the group name of the API package, and what the
  builders need to know of the \<^verbatim>\<open>runtime.Scheme\<close> the reconciler passes them: whether it
  has the kind of the cluster registered.
\<close>

record util_deps =
  Group :: string
  SchemeKnowsCluster :: bool
  MapMd5 :: "gomap \<Rightarrow> string"
  MergeMaps :: "gomap \<Rightarrow> gomap \<Rightarrow> gomap"
  ObjKey :: "DorisCluster \<Rightarrow> NamespacedName"
  GetFeImage :: "DorisCluster \<Rightarrow> string"

text \<open>Package \<^verbatim>\<open>transformer\<close>: helpers used by \<^verbatim>\<open>fe_resources.go\<close>.\<close>

record helper_deps =
  MakeResourceLabels :: "string \<Rightarrow> string \<Rightarrow> gomap"
  getPortValueFromRawConf :: "gomap \<Rightarrow> string \<Rightarrow> int32 \<Rightarrow> int32"
  dumpJavaBasedComponentConf :: "gomap \<Rightarrow> string"
  mergeHostAlias :: "HostAlias list \<Rightarrow> HostAlias list \<Rightarrow> HostAlias list"
  GetOprSqlAccountSecretName :: "DorisCluster \<Rightarrow> NamespacedName"
  PrometheusPathAnnoKey :: string
  PrometheusPortAnnoKey :: string
  PrometheusScrapeAnnoKey :: string

text \<open>Package \<^verbatim>\<open>transformer\<close>: the keys of the managed objects.\<close>

record key_deps =
  GetOprSqlAccountSecretKey :: "NamespacedName \<Rightarrow> NamespacedName"
  GetFeStatefulSetKey :: "NamespacedName \<Rightarrow> NamespacedName"
  GetFeServiceKey :: "NamespacedName \<Rightarrow> NamespacedName"
  GetFePeerServiceKey :: "NamespacedName \<Rightarrow> NamespacedName"
  GetFeConfigMapKey :: "NamespacedName \<Rightarrow> NamespacedName"
  GetBeStatefulSetKey :: "DorisCluster \<Rightarrow> NamespacedName"
  GetBeServiceKey :: "NamespacedName \<Rightarrow> NamespacedName"
  GetBePeerServiceKey :: "NamespacedName \<Rightarrow> NamespacedName"
  GetBeConfigMapKey :: "NamespacedName \<Rightarrow> NamespacedName"
  GetCnStatefulSetKey :: "NamespacedName \<Rightarrow> NamespacedName"
  GetCnServiceKey :: "NamespacedName \<Rightarrow> NamespacedName"
  GetCnPeerServiceKey :: "NamespacedName \<Rightarrow> NamespacedName"
  GetCnConfigMapKey :: "NamespacedName \<Rightarrow> NamespacedName"
  GetBrokerStatefulSetKey :: "NamespacedName \<Rightarrow> NamespacedName"
  GetBrokerPeerServiceKey :: "NamespacedName \<Rightarrow> NamespacedName"
  GetBrokerConfigMapKey :: "NamespacedName \<Rightarrow> NamespacedName"

text \<open>
  Package \<^verbatim>\<open>transformer\<close>: the builders of the secret and of the BE, CN and Broker
  objects. Each returns a pointer, which may be nil.
\<close>

record builder_deps =
  MakeOprSqlAccountSecret :: "DorisCluster \<Rightarrow> Secret option"
  MakeBeConfigMap :: "DorisCluster \<Rightarrow> ConfigMap option"
  MakeBeService :: "DorisCluster \<Rightarrow> Service option"
  MakeBePeerService :: "DorisCluster \<Rightarrow> Service option"
  MakeBeStatefulSet :: "DorisCluster \<Rightarrow> StatefulSet option"
  MakeCnConfigMap :: "DorisCluster \<Rightarrow> ConfigMap option"
  MakeCnService :: "DorisCluster \<Rightarrow> Service option"
  MakeCnPeerService :: "DorisCluster \<Rightarrow> Service option"
  MakeCnStatefulSet :: "DorisCluster \<Rightarrow> StatefulSet option"
  MakeBrokerConfigMap :: "DorisCluster \<Rightarrow> ConfigMap option"
  MakeBrokerPeerService :: "DorisCluster \<Rightarrow> Service option"
  MakeBrokerStatefulSet :: "DorisCluster \<Rightarrow> StatefulSet option"

record deps =
  util :: util_deps
  helpers :: helper_deps
  keys :: key_deps
  builders :: builder_deps

section \<open>The FE builders (\<^verbatim>\<open>fe_resources.go\<close>)\<close>

subsection \<open>Library functions\<close>

text \<open>
  \<^verbatim>\<open>controllerutil.SetOwnerReference\<close> (controller-runtime) looks the owner's kind up in
  the scheme. When the scheme does not know it, the function returns an error and
  leaves the object as it is; the builders discard the error. Otherwise it records
  the cluster as an owner in the object's metadata, replacing an entry for the same
  owner, and touches no other field.
\<close>

definition SetOwnerReference :: "deps \<Rightarrow> DorisCluster \<Rightarrow> ObjectMeta \<Rightarrow> ObjectMeta" where
  "SetOwnerReference d cr m =
     (if \<not> SchemeKnowsCluster (util d) then m
      else
        (let ref = \<lparr>nn_Namespace = Namespace (cr_ObjectMeta cr),
                    nn_Name = Name (cr_ObjectMeta cr)\<rparr>
         in if ref \<in> set (OwnerReferences m) then m
            else m\<lparr>OwnerReferences := OwnerReferences m @ [ref]\<rparr>))"

text \<open>\<^verbatim>\<open>strconv.Itoa\<close>: the decimal rendering of an integer.\<close>

fun digits10 :: "nat \<Rightarrow> string" where
  "digits10 n =
     (if n < 10 then [char_of (48 + n)]
      else digits10 (n div 10) @ [char_of (48 + n mod 10)])"

declare digits10.simps [simp del]

definition Itoa :: "int \<Rightarrow> string" where
  "Itoa i = (if i < 0 then CHR ''-'' # digits10 (nat (- i)) else digits10 (nat i))"

text \<open>
  Modelled from the spec: the fallback helpers of package \<^verbatim>\<open>util\<close> are not part of the
  two files. Section 3 of the specification says that a role-level field overrides
  the cluster-level one, which overrides a hard-coded default; an unset string is the
  empty string, an unset pointer is nil, an unset array is empty.
\<close>

definition StringFallback :: "string \<Rightarrow> string \<Rightarrow> string" where
  "StringFallback a b = (if a \<noteq> [] then a else b)"

definition PointerFallback :: "'a option \<Rightarrow> 'a option \<Rightarrow> 'a option" where
  "PointerFallback a b = (case a of Some x \<Rightarrow> Some x | None \<Rightarrow> b)"

definition ArrayFallback :: "'a list \<Rightarrow> 'a list \<Rightarrow> 'a list" where
  "ArrayFallback a b = (if a \<noteq> [] then a else b)"

definition PointerFallbackAndDeRefer :: "'a option \<Rightarrow> 'a option \<Rightarrow> 'a \<Rightarrow> 'a" where
  "PointerFallbackAndDeRefer a b c =
     (case a of Some x \<Rightarrow> x | None \<Rightarrow> (case b of Some y \<Rightarrow> y | None \<Rightarrow> c))"

subsection \<open>Names and ports\<close>

definition DefaultFeHttpPort :: int32 where "DefaultFeHttpPort = 8030"
definition DefaultFeEditLogPort :: int32 where "DefaultFeEditLogPort = 9010"
definition DefaultFeRpcPort :: int32 where "DefaultFeRpcPort = 9020"
definition DefaultFeQueryPort :: int32 where "DefaultFeQueryPort = 9030"

definition GetFeComponentLabels :: "deps \<Rightarrow> DorisCluster \<Rightarrow> gomap" where
  "GetFeComponentLabels d r = MakeResourceLabels (helpers d) (Name (cr_ObjectMeta r)) ''fe''"

definition GetFeConfigMapName :: "DorisCluster \<Rightarrow> NamespacedName" where
  "GetFeConfigMapName cr =
     \<lparr>nn_Namespace = Namespace (cr_ObjectMeta cr),
      nn_Name = Name (cr_ObjectMeta cr) @ ''-fe-config''\<rparr>"

definition GetFeServiceName :: "DorisCluster \<Rightarrow> NamespacedName" where
  "GetFeServiceName cr =
     \<lparr>nn_Namespace = Namespace (cr_ObjectMeta cr),
      nn_Name = Name (cr_ObjectMeta cr) @ ''-fe''\<rparr>"

definition GetFePeerServiceName :: "DorisCluster \<Rightarrow> NamespacedName" where
  "GetFePeerServiceName cr =
     \<lparr>nn_Namespace = Namespace (cr_ObjectMeta cr),
      nn_Name = Name (cr_ObjectMeta cr) @ ''-fe-peer''\<rparr>"

definition GetFeStatefulSetName :: "DorisCluster \<Rightarrow> NamespacedName" where
  "GetFeStatefulSetName r =
     \<lparr>nn_Namespace = Namespace (cr_ObjectMeta r),
      nn_Name = Name (cr_ObjectMeta r) @ ''-fe''\<rparr>"

definition GetFeHttpPort :: "deps \<Rightarrow> DorisCluster \<Rightarrow> int32" where
  "GetFeHttpPort d cr =
     (case FE (Spec cr) of
        None \<Rightarrow> DefaultFeHttpPort
      | Some fe \<Rightarrow>
          getPortValueFromRawConf (helpers d) (fe_Configs fe) ''http_port'' DefaultFeHttpPort)"

definition GetFeQueryPort :: "deps \<Rightarrow> DorisCluster \<Rightarrow> int32" where
  "GetFeQueryPort d cr =
     (case FE (Spec cr) of
        None \<Rightarrow> DefaultFeQueryPort
      | Some fe \<Rightarrow>
          getPortValueFromRawConf (helpers d) (fe_Configs fe) ''query_port'' DefaultFeQueryPort)"

definition GetFeRpcPort :: "deps \<Rightarrow> DorisCluster \<Rightarrow> int32" where
  "GetFeRpcPort d cr =
     (case FE (Spec cr) of
        None \<Rightarrow> DefaultFeRpcPort
      | Some fe \<Rightarrow>
          getPortValueFromRawConf (helpers d) (fe_Configs fe) ''query_port'' DefaultFeRpcPort)"

definition GetFeEditLogPort :: "deps \<Rightarrow> DorisCluster \<Rightarrow> int32" where
  "GetFeEditLogPort d cr =
     (case FE (Spec cr) of
        None \<Rightarrow> DefaultFeEditLogPort
      | Some fe \<Rightarrow>
          getPortValueFromRawConf (helpers d) (fe_Configs fe) ''edit_log_port''
            DefaultFeEditLogPort)"

subsection \<open>Configuration bundle and services\<close>

definition MakeFeConfigMap :: "deps \<Rightarrow> DorisCluster \<Rightarrow> ConfigMap option" where
  "MakeFeConfigMap d cr =
     (case FE (Spec cr) of
        None \<Rightarrow> None
      | Some fe \<Rightarrow>
          let configMapRef = GetFeConfigMapName cr;
              data = [''fe.conf'' \<mapsto> dumpJavaBasedComponentConf (helpers d) (fe_Configs fe)];
              data = (case HadoopConf (Spec cr) of
                        Some hc \<Rightarrow> MergeMaps (util d) (Config hc) data
                      | None \<Rightarrow> data);
              configMap =
                \<lparr>cm_ObjectMeta =
                   \<lparr>Name = nn_Name configMapRef,
                    Namespace = nn_Namespace configMapRef,
                    Labels = GetFeComponentLabels d cr,
                    Annotations = None,
                    OwnerReferences = []\<rparr>,
                 Data = data\<rparr>
          in Some (configMap\<lparr>cm_ObjectMeta := SetOwnerReference d cr (cm_ObjectMeta configMap)\<rparr>))"

text \<open>
  In \<^verbatim>\<open>MakeFeService\<close> the two \<^verbatim>\<open>ServicePort\<close> values are built first with \<^verbatim>\<open>NodePort\<close> at
  its zero value; the user's overrides are applied afterwards, in the order of the
  source.
\<close>

definition MakeFeService :: "deps \<Rightarrow> DorisCluster \<Rightarrow> Service option" where
  "MakeFeService d cr =
     (case FE (Spec cr) of
        None \<Rightarrow> None
      | Some fe \<Rightarrow>
          let serviceRef = GetFeServiceName cr;
              feLabels = GetFeComponentLabels d cr;
              meta = \<lparr>Name = nn_Name serviceRef,
                      Namespace = nn_Namespace serviceRef,
                      Labels = feLabels,
                      Annotations = None,
                      OwnerReferences = []\<rparr>;
              spec = \<lparr>Ports = [],
                      svc_Selector = feLabels,
                      svc_Type = ''ClusterIP'',
                      ClusterIP = [],
                      ExternalTrafficPolicy = []\<rparr>;
              httpPort = \<lparr>sp_Name = ''http-port'', Port = GetFeHttpPort d cr, NodePort = 0\<rparr>;
              queryPort = \<lparr>sp_Name = ''query-port'', Port = GetFeQueryPort d cr, NodePort = 0\<rparr>;
              crSvc = fe_Service fe;
              spec = (case crSvc of
                        None \<Rightarrow> spec
                      | Some sv \<Rightarrow>
                          let spec = (if fesvc_Type sv \<noteq> [] then spec\<lparr>svc_Type := fesvc_Type sv\<rparr>
                                      else spec)
                          in (case fesvc_ExternalTrafficPolicy sv of
                                Some pol \<Rightarrow> spec\<lparr>ExternalTrafficPolicy := pol\<rparr>
                              | None \<Rightarrow> spec));
              httpPort = (case crSvc of
                            None \<Rightarrow> httpPort
                          | Some sv \<Rightarrow>
                              (case QueryPort sv of
                                 Some p \<Rightarrow> httpPort\<lparr>NodePort := p\<rparr>
                               | None \<Rightarrow> httpPort));
              queryPort = (case crSvc of
                             None \<Rightarrow> queryPort
                           | Some sv \<Rightarrow>
                               (case HttpPort sv of
                                  Some p \<Rightarrow> queryPort\<lparr>NodePort := p\<rparr>
                                | None \<Rightarrow> queryPort));
              spec = spec\<lparr>Ports := [httpPort, queryPort]\<rparr>
          in Some \<lparr>svc_ObjectMeta = SetOwnerReference d cr meta, svc_Spec = spec\<rparr>)"

text \<open>
  \<^verbatim>\<open>MakeFePeerService\<close> takes the operator's SQL account as a second argument and never
  reads it.
\<close>

definition MakeFePeerService :: "deps \<Rightarrow> DorisCluster \<Rightarrow> gomap \<Rightarrow> Service option" where
  "MakeFePeerService d cr OprSqlAccount =
     (case FE (Spec cr) of
        None \<Rightarrow> None
      | Some fe \<Rightarrow>
          let serviceRef = GetFePeerServiceName cr;
              feLabels = GetFeComponentLabels d cr;
              meta = \<lparr>Name = nn_Name serviceRef,
                      Namespace = nn_Namespace serviceRef,
                      Labels = feLabels,
                      Annotations = None,
                      OwnerReferences = []\<rparr>;
              spec = \<lparr>Ports =
                        [\<lparr>sp_Name = ''http-port'', Port = GetFeHttpPort d cr, NodePort = 0\<rparr>,
                         \<lparr>sp_Name = ''edit-log-port'', Port = GetFeEditLogPort d cr, NodePort = 0\<rparr>,
                         \<lparr>sp_Name = ''rpc-port'', Port = GetFeRpcPort d cr, NodePort = 0\<rparr>],
                      svc_Selector = feLabels,
                      svc_Type = ''ClusterIP'',
                      ClusterIP = ''None'',
                      ExternalTrafficPolicy = []\<rparr>
          in Some \<lparr>svc_ObjectMeta = SetOwnerReference d cr meta, svc_Spec = spec\<rparr>)"

subsection \<open>Workload set\<close>

text \<open>
  \<^verbatim>\<open>ResourceList.Storage()\<close> (Kubernetes API) never returns nil: it is the quantity stored
  under \<^verbatim>\<open>storage\<close>, or a zero quantity.
\<close>

definition Storage :: "(string \<rightharpoonup> Quantity) \<Rightarrow> Quantity option" where
  "Storage rl = (case rl ''storage'' of Some q \<Rightarrow> Some q | None \<Rightarrow> Some ''0'')"

text \<open>
  The object metadata of the StatefulSet is the literal
  \<^verbatim>\<open>metav1.ObjectMeta{Name: ..., Namespace: ..., Labels: feLabels}\<close>: its \<^verbatim>\<open>Annotations\<close> are
  nil. The pod template's metadata is a different literal, whose \<^verbatim>\<open>Annotations\<close> are a
  map of three Prometheus entries.
\<close>

definition MakeFeStatefulSet :: "deps \<Rightarrow> DorisCluster \<Rightarrow> StatefulSet option" where
  "MakeFeStatefulSet d cr =
     (case FE (Spec cr) of
        None \<Rightarrow> None
      | Some fe \<Rightarrow>
          let statefulSetRef = GetFeStatefulSetName cr;
              feLabels = GetFeComponentLabels d cr;
              pvcTemplate = \<lparr>pvc_Name = ''fe-meta'',
                             AccessModes = [''ReadWriteOnce''],
                             pvc_StorageClassName = fe_StorageClassName fe,
                             pvc_Requests = Map.empty\<rparr>;
              storageRequest = Storage (fe_Requests fe);
              pvcTemplate = (case storageRequest of
                               Some q \<Rightarrow> pvcTemplate\<lparr>pvc_Requests := [''storage'' \<mapsto> q]\<rparr>
                             | None \<Rightarrow> pvcTemplate);
              volumes = [\<lparr>vol_Name = ''conf'',
                          vol_Source = ConfigMapVolumeSource (nn_Name (GetFeConfigMapName cr))\<rparr>,
                         \<lparr>vol_Name = ''fe-log'', vol_Source = EmptyDirVolumeSource []\<rparr>];
              volumes = volumes @ fe_AdditionalVolumes fe;
              mainContainer =
                \<lparr>c_Name = ''fe'',
                 Image = GetFeImage (util d) cr,
                 c_ImagePullPolicy = ImagePullPolicy (Spec cr),
                 c_Requests = fe_Requests fe,
                 c_Ports =
                   [\<lparr>cp_Name = ''http-port'', cp_ContainerPort = GetFeHttpPort d cr\<rparr>,
                    \<lparr>cp_Name = ''edit-log-port'', cp_ContainerPort = GetFeEditLogPort d cr\<rparr>,
                    \<lparr>cp_Name = ''rpc-port'', cp_ContainerPort = GetFeRpcPort d cr\<rparr>,
                    \<lparr>cp_Name = ''query-port'', cp_ContainerPort = GetFeQueryPort d cr\<rparr>],
                 Env =
                   [\<lparr>env_Name = ''FE_SVC'', env_Value = nn_Name (GetFeServiceName cr),
                     SecretKeyRef = None\<rparr>,
                    \<lparr>env_Name = ''ACC_USER'', env_Value = [],
                     SecretKeyRef =
                       Some (nn_Name (GetOprSqlAccountSecretName (helpers d) cr), ''user'')\<rparr>,
                    \<lparr>env_Name = ''ACC_PWD'', env_Value = [],
                     SecretKeyRef =
                       Some (nn_Name (GetOprSqlAccountSecretName (helpers d) cr), ''password'')\<rparr>],
                 VolumeMounts =
                   [\<lparr>vm_Name = ''conf'', MountPath = ''/etc/apache-doris/fe/''\<rparr>,
                    \<lparr>vm_Name = ''fe-meta'', MountPath = ''/opt/apache-doris/fe/doris-meta''\<rparr>,
                    \<lparr>vm_Name = ''fe-log'', MountPath = ''/opt/apache-doris/fe/log''\<rparr>],
                 ReadinessProbe =
                   Some \<lparr>TCPSocketPort = sint (GetFeQueryPort d cr),
                         InitialDelaySeconds = 3,
                         TimeoutSeconds = 1,
                         PeriodSeconds = 5,
                         SuccessThreshold = 1,
                         FailureThreshold = 3\<rparr>\<rparr>;
              mainContainer = mainContainer\<lparr>Env := Env mainContainer @ fe_AdditionalEnvs fe\<rparr>;
              mainContainer = mainContainer
                \<lparr>VolumeMounts := VolumeMounts mainContainer @ fe_AdditionalVolumeMounts fe\<rparr>;
              containers = [mainContainer] @ fe_AdditionalContainers fe;
              initContainers = fe_AdditionalInitContainers fe;
              hostAlias = (case HadoopConf (Spec cr) of
                             Some hc \<Rightarrow> mergeHostAlias (helpers d) (Hosts hc) (fe_HostAliases fe)
                           | None \<Rightarrow> fe_HostAliases fe);
              podTemplate =
                \<lparr>tpl_ObjectMeta =
                   \<lparr>Name = [],
                    Namespace = [],
                    Labels = feLabels,
                    Annotations =
                      Some [PrometheusPathAnnoKey (helpers d) \<mapsto> ''/metrics'',
                            PrometheusPortAnnoKey (helpers d) \<mapsto> Itoa (sint (GetFeHttpPort d cr)),
                            PrometheusScrapeAnnoKey (helpers d) \<mapsto> ''true''],
                    OwnerReferences = []\<rparr>,
                 tpl_Spec =
                   \<lparr>Volumes = volumes,
                    InitContainers = initContainers,
                    Containers = containers,
                    pod_ImagePullSecrets = ImagePullSecrets (Spec cr),
                    ServiceAccountName =
                      StringFallback (fe_ServiceAccount fe) (ServiceAccount (Spec cr)),
                    pod_Affinity = PointerFallback (fe_Affinity fe) (Affinity (Spec cr)),
                    pod_Tolerations = ArrayFallback (fe_Tolerations fe) (Tolerations (Spec cr)),
                    pod_PriorityClassName =
                      StringFallback (fe_PriorityClassName fe) (PriorityClassName (Spec cr)),
                    pod_HostAliases = hostAlias\<rparr>\<rparr>;
              updateStg =
                PointerFallbackAndDeRefer (fe_StatefulSetUpdateStrategy fe)
                  (StatefulSetUpdateStrategy (Spec cr)) ''RollingUpdate'';
              statefulSet =
                \<lparr>sts_ObjectMeta =
                   \<lparr>Name = nn_Name statefulSetRef,
                    Namespace = nn_Namespace statefulSetRef,
                    Labels = feLabels,
                    Annotations = None,
                    OwnerReferences = []\<rparr>,
                 sts_Spec =
                   \<lparr>Replicas = Some (fe_Replicas fe),
                    ServiceName = nn_Name (GetFePeerServiceName cr),
                    sts_Selector = feLabels,
                    VolumeClaimTemplates = [pvcTemplate],
                    Template = podTemplate,
                    UpdateStrategy = updateStg\<rparr>\<rparr>
          in Some (statefulSet
                 \<lparr>sts_ObjectMeta := SetOwnerReference d cr (sts_ObjectMeta statefulSet)\<rparr>))"

section \<open>The reconciler (\<^verbatim>\<open>doriscluster_reconciler.go\<close>)\<close>

subsection \<open>Stage results\<close>

text \<open>
  Modelled from the spec: the stage, status and action constants of package \<^verbatim>\<open>dapi\<close> are
  not part of the two files. The constructors are the names the reconciler uses; the
  specification gives a stage result a status that is succeeded or failed and an
  action that is apply or delete. \<open>StageActionUnset\<close> is the zero value of the action
  type, which a struct literal that names no action carries.
\<close>

datatype DorisClusterOprStage =
    StageSqlAccountSecret
  | StageFe | StageFeConfigmap | StageFeService | StageFeStatefulSet
  | StageBe | StageBeConfigmap | StageBeService | StageBeStatefulSet
  | StageCn | StageCnConfigmap | StageCnService | StageCnStatefulSet
  | StageBroker | StageBrokerConfigmap | StageBrokerService | StageBrokerStatefulSet
  | StageComplete

datatype OprStageStatus = StageResultSucceeded | StageResultFailed

datatype OprStageAction = StageActionUnset | StageActionApply | StageActionDelete

record ClusterStageRecResult =
  Stage :: DorisClusterOprStage
  Status :: OprStageStatus
  Action :: OprStageAction
  Err :: "error option"

definition clusterStageSucc ::
  "DorisClusterOprStage \<Rightarrow> OprStageAction \<Rightarrow> ClusterStageRecResult" where
  "clusterStageSucc stage action =
     \<lparr>Stage = stage, Status = StageResultSucceeded, Action = action, Err = None\<rparr>"

definition clusterStageFail ::
  "DorisClusterOprStage \<Rightarrow> OprStageAction \<Rightarrow> error option \<Rightarrow> ClusterStageRecResult" where
  "clusterStageFail stage action err =
     \<lparr>Stage = stage, Status = StageResultSucceeded, Action = action, Err = err\<rparr>"

definition FeConfHashAnnotationKey :: "deps \<Rightarrow> string" where
  "FeConfHashAnnotationKey d = Group (util d) @ ''/fe-config''"

definition BeConfHashAnnotationKey :: "deps \<Rightarrow> string" where
  "BeConfHashAnnotationKey d = Group (util d) @ ''/be-config''"

definition CnConfHashAnnotationKey :: "deps \<Rightarrow> string" where
  "CnConfHashAnnotationKey d = Group (util d) @ ''/cn-config''"

definition BrokerConfHashAnnotationKey :: "deps \<Rightarrow> string" where
  "BrokerConfHashAnnotationKey d = Group (util d) @ ''/broker-config''"

subsection \<open>The object store client\<close>

text \<open>
  The methods of \<^verbatim>\<open>ReconcileContext\<close> (\<^verbatim>\<open>Exist\<close>, \<^verbatim>\<open>Create\<close>, \<^verbatim>\<open>CreateOrUpdate\<close>,
  \<^verbatim>\<open>DeleteWhenExist\<close>, \<^verbatim>\<open>FindRefDorisAutoScaler\<close>) talk to the object store and are not
  part of the two files. The embedding makes no assumption about the store: the
  state a pass threads through is the trace of the calls issued so far, each with the
  answer it got, and the answer to a call is an arbitrary function of the trace before
  it. What a pass does to the store is what its trace says.
\<close>

datatype kind = SecretKind | StatefulSetKind | ServiceKind | ConfigMapKind

datatype object =
    SecretObj "Secret option"
  | ConfigMapObj "ConfigMap option"
  | ServiceObj "Service option"
  | StatefulSetObj "StatefulSet option"

datatype event =
    ExistCall NamespacedName kind bool "error option"
  | CreateCall object "error option"
  | CreateOrUpdateCall object "error option"
  | DeleteWhenExistCall NamespacedName kind "error option"
  | FindRefDorisAutoScalerCall NamespacedName "DorisAutoScaler option" "error option"

type_synonym trace = "event list"

record ReconcileContext =
  Exist_answer :: "trace \<Rightarrow> NamespacedName \<Rightarrow> kind \<Rightarrow> bool \<times> error option"
  Create_answer :: "trace \<Rightarrow> object \<Rightarrow> error option"
  CreateOrUpdate_answer :: "trace \<Rightarrow> object \<Rightarrow> error option"
  DeleteWhenExist_answer :: "trace \<Rightarrow> NamespacedName \<Rightarrow> kind \<Rightarrow> error option"
  FindRefDorisAutoScaler_answer ::
    "trace \<Rightarrow> NamespacedName \<Rightarrow> DorisAutoScaler option \<times> error option"

definition Exist ::
  "ReconcileContext \<Rightarrow> NamespacedName \<Rightarrow> kind \<Rightarrow> trace \<Rightarrow> (bool \<times> error option) \<times> trace" where
  "Exist r key k tr =
     (let (exists, err) = Exist_answer r tr key k
      in ((exists, err), tr @ [ExistCall key k exists err]))"

definition Create :: "ReconcileContext \<Rightarrow> object \<Rightarrow> trace \<Rightarrow> error option \<times> trace" where
  "Create r obj tr =
     (let err = Create_answer r tr obj in (err, tr @ [CreateCall obj err]))"

definition CreateOrUpdate ::
  "ReconcileContext \<Rightarrow> object \<Rightarrow> trace \<Rightarrow> error option \<times> trace" where
  "CreateOrUpdate r obj tr =
     (let err = CreateOrUpdate_answer r tr obj in (err, tr @ [CreateOrUpdateCall obj err]))"

definition DeleteWhenExist ::
  "ReconcileContext \<Rightarrow> NamespacedName \<Rightarrow> kind \<Rightarrow> trace \<Rightarrow> error option \<times> trace" where
  "DeleteWhenExist r key k tr =
     (let err = DeleteWhenExist_answer r tr key k
      in (err, tr @ [DeleteWhenExistCall key k err]))"

definition FindRefDorisAutoScaler ::
  "ReconcileContext \<Rightarrow> NamespacedName \<Rightarrow> trace
     \<Rightarrow> (DorisAutoScaler option \<times> error option) \<times> trace" where
  "FindRefDorisAutoScaler r key tr =
     (let (autoScaler, err) = FindRefDorisAutoScaler_answer r tr key
      in ((autoScaler, err), tr @ [FindRefDorisAutoScalerCall key autoScaler err]))"

text \<open>\<^verbatim>\<open>client.ObjectKeyFromObject\<close> (controller-runtime).\<close>

definition ObjectKeyFromObject :: "DorisCluster \<Rightarrow> NamespacedName" where
  "ObjectKeyFromObject cr =
     \<lparr>nn_Namespace = Namespace (cr_ObjectMeta cr), nn_Name = Name (cr_ObjectMeta cr)\<rparr>"

subsection \<open>Stage functions\<close>

datatype panic = NilPointerDereference | AssignmentToEntryInNilMap

type_synonym stage_fn = "trace \<Rightarrow> (panic + ClusterStageRecResult) \<times> trace"

definition recOprAccountSecret :: "deps \<Rightarrow> ReconcileContext \<Rightarrow> DorisCluster \<Rightarrow> stage_fn" where
  "recOprAccountSecret d r cr tr =
     (let secretRef = GetOprSqlAccountSecretKey (keys d) (ObjKey (util d) cr);
          action = StageActionApply;
          ((exists, err), tr1) = Exist r secretRef SecretKind tr
      in if err \<noteq> None then (Inr (clusterStageFail StageSqlAccountSecret action err), tr1)
         else if \<not> exists then
           (let newSecret = MakeOprSqlAccountSecret (builders d) cr;
                (err, tr2) = Create r (SecretObj newSecret) tr1
            in if err \<noteq> None
               then (Inr (clusterStageFail StageSqlAccountSecret action err), tr2)
               else (Inr (clusterStageSucc StageSqlAccountSecret action), tr2))
         else (Inr (clusterStageSucc StageSqlAccountSecret action), tr1))"

text \<open>
  The statement \<^verbatim>\<open>statefulSet.Annotations[key] = util.MapMd5(configMap.Data)\<close>, which the
  four apply paths share. \<^verbatim>\<open>statefulSet.Annotations\<close> is the promoted field of the
  embedded \<^verbatim>\<open>ObjectMeta\<close>, the StatefulSet's own metadata. Go evaluates the operands
  first (dereferencing both pointers) and then assigns; assigning into a nil map
  panics.
\<close>

definition setConfHashAnnotation ::
  "deps \<Rightarrow> StatefulSet option \<Rightarrow> string \<Rightarrow> ConfigMap option \<Rightarrow> panic + StatefulSet" where
  "setConfHashAnnotation d statefulSet key configMap =
     (case statefulSet of
        None \<Rightarrow> Inl NilPointerDereference
      | Some s \<Rightarrow>
          (case configMap of
             None \<Rightarrow> Inl NilPointerDereference
           | Some cm \<Rightarrow>
               (case Annotations (sts_ObjectMeta s) of
                  None \<Rightarrow> Inl AssignmentToEntryInNilMap
                | Some m \<Rightarrow>
                    Inr (s\<lparr>sts_ObjectMeta :=
                            (sts_ObjectMeta s)
                              \<lparr>Annotations := Some (m(key \<mapsto> MapMd5 (util d) (Data cm)))\<rparr>\<rparr>))))"

text \<open>
  The call site passes \<^verbatim>\<open>MakeFePeerService\<close> the cluster and the scheme only; the
  account argument, which the builder never reads, is the empty map here.
\<close>

definition recFeResources_applyRes ::
  "deps \<Rightarrow> ReconcileContext \<Rightarrow> DorisCluster \<Rightarrow> stage_fn" where
  "recFeResources_applyRes d r cr tr =
     (let action = StageActionApply;
          configMap = MakeFeConfigMap d cr;
          (err, tr1) = CreateOrUpdate r (ConfigMapObj configMap) tr
      in if err \<noteq> None then (Inr (clusterStageFail StageFeConfigmap action err), tr1)
         else
     (let service = MakeFeService d cr;
          (err, tr2) = CreateOrUpdate r (ServiceObj service) tr1
      in if err \<noteq> None then (Inr (clusterStageFail StageFeService action err), tr2)
         else
     (let peerService = MakeFePeerService d cr Map.empty;
          (err, tr3) = CreateOrUpdate r (ServiceObj peerService) tr2
      in if err \<noteq> None then (Inr (clusterStageFail StageFeService action err), tr3)
         else
     (let statefulSet = MakeFeStatefulSet d cr
      in case setConfHashAnnotation d statefulSet (FeConfHashAnnotationKey d) configMap of
           Inl p \<Rightarrow> (Inl p, tr3)
         | Inr statefulSet \<Rightarrow>
             (let (err, tr4) = CreateOrUpdate r (StatefulSetObj (Some statefulSet)) tr3
              in if err \<noteq> None
                 then (Inr (clusterStageFail StageFeStatefulSet action err), tr4)
                 else (Inr (clusterStageSucc StageFe action), tr4))))))"

definition recFeResources_deleteRes ::
  "deps \<Rightarrow> ReconcileContext \<Rightarrow> DorisCluster \<Rightarrow> stage_fn" where
  "recFeResources_deleteRes d r cr tr =
     (let action = StageActionDelete;
          statefulsetRef = GetFeStatefulSetKey (keys d) (ObjKey (util d) cr);
          (err, tr1) = DeleteWhenExist r statefulsetRef StatefulSetKind tr
      in if err \<noteq> None then (Inr (clusterStageFail StageFeConfigmap action err), tr1)
         else
     (let serviceRef = GetFeServiceKey (keys d) (ObjKey (util d) cr);
          (err, tr2) = DeleteWhenExist r serviceRef ServiceKind tr1
      in if err \<noteq> None then (Inr (clusterStageFail StageFeConfigmap action err), tr2)
         else
     (let peerServiceRef = GetFePeerServiceKey (keys d) (ObjKey (util d) cr);
          (err, tr3) = DeleteWhenExist r peerServiceRef ServiceKind tr2
      in if err \<noteq> None then (Inr (clusterStageFail StageFeConfigmap action err), tr3)
         else
     (let configMapRef = GetFeConfigMapKey (keys d) (ObjKey (util d) cr);
          (err, tr4) = DeleteWhenExist r configMapRef ConfigMapKind tr3
      in if err \<noteq> None then (Inr (clusterStageFail StageFeConfigmap action err), tr4)
         else (Inr (clusterStageSucc StageFe action), tr4)))))"

text \<open>\<^verbatim>\<open>util.Elvis(c, a, b)\<close> is \<^verbatim>\<open>a\<close> when \<^verbatim>\<open>c\<close> holds and \<^verbatim>\<open>b\<close> otherwise.\<close>

definition recFeResources :: "deps \<Rightarrow> ReconcileContext \<Rightarrow> DorisCluster \<Rightarrow> stage_fn" where
  "recFeResources d r cr =
     (if FE (Spec cr) \<noteq> None then recFeResources_applyRes d r cr
      else recFeResources_deleteRes d r cr)"

definition recBeResources_applyRes ::
  "deps \<Rightarrow> ReconcileContext \<Rightarrow> DorisCluster \<Rightarrow> stage_fn" where
  "recBeResources_applyRes d r cr tr =
     (let action = StageActionApply;
          configMap = MakeBeConfigMap (builders d) cr;
          (err, tr1) = CreateOrUpdate r (ConfigMapObj configMap) tr
      in if err \<noteq> None then (Inr (clusterStageFail StageBeConfigmap action err), tr1)
         else
     (let service = MakeBeService (builders d) cr;
          (err, tr2) = CreateOrUpdate r (ServiceObj service) tr1
      in if err \<noteq> None then (Inr (clusterStageFail StageBeService action err), tr2)
         else
     (let peerService = MakeBePeerService (builders d) cr;
          (err, tr3) = CreateOrUpdate r (ServiceObj peerService) tr2
      in if err \<noteq> None then (Inr (clusterStageFail StageBeService action err), tr3)
         else
     (let statefulSet = MakeBeStatefulSet (builders d) cr
      in case setConfHashAnnotation d statefulSet (BeConfHashAnnotationKey d) configMap of
           Inl p \<Rightarrow> (Inl p, tr3)
         | Inr statefulSet \<Rightarrow>
             (let (err, tr4) = CreateOrUpdate r (StatefulSetObj (Some statefulSet)) tr3
              in if err \<noteq> None
                 then (Inr (clusterStageFail StageBeStatefulSet action err), tr4)
                 else (Inr (clusterStageSucc StageBe action), tr4))))))"

definition recBeResources_deleteRes ::
  "deps \<Rightarrow> ReconcileContext \<Rightarrow> DorisCluster \<Rightarrow> stage_fn" where
  "recBeResources_deleteRes d r cr tr =
     (let action = StageActionDelete;
          statefulsetRef = GetBeStatefulSetKey (keys d) cr;
          (err, tr1) = DeleteWhenExist r statefulsetRef StatefulSetKind tr
      in if err \<noteq> None then (Inr (clusterStageFail StageBeConfigmap action err), tr1)
         else
     (let serviceRef = GetBeServiceKey (keys d) (ObjKey (util d) cr);
          (err, tr2) = DeleteWhenExist r serviceRef ServiceKind tr1
      in if err \<noteq> None then (Inr (clusterStageFail StageBeConfigmap action err), tr2)
         else
     (let peerServiceRef = GetBePeerServiceKey (keys d) (ObjKey (util d) cr);
          (err, tr3) = DeleteWhenExist r peerServiceRef ServiceKind tr2
      in if err \<noteq> None then (Inr (clusterStageFail StageBeConfigmap action err), tr3)
         else
     (let configMapRef = GetBeConfigMapKey (keys d) (ObjKey (util d) cr);
          (err, tr4) = DeleteWhenExist r configMapRef ConfigMapKind tr3
      in if err \<noteq> None then (Inr (clusterStageFail StageBeConfigmap action err), tr4)
         else (Inr (clusterStageSucc StageBe action), tr4)))))"

definition recBeResources :: "deps \<Rightarrow> ReconcileContext \<Rightarrow> DorisCluster \<Rightarrow> stage_fn" where
  "recBeResources d r cr =
     (if BE (Spec cr) \<noteq> None then recBeResources_applyRes d r cr
      else recBeResources_deleteRes d r cr)"

definition recCnResources_applyRes ::
  "deps \<Rightarrow> ReconcileContext \<Rightarrow> DorisCluster \<Rightarrow> stage_fn" where
  "recCnResources_applyRes d r cr tr =
     (let action = StageActionApply;
          configMap = MakeCnConfigMap (builders d) cr;
          (err, tr1) = CreateOrUpdate r (ConfigMapObj configMap) tr
      in if err \<noteq> None then (Inr (clusterStageFail StageCnConfigmap action err), tr1)
         else
     (let service = MakeCnService (builders d) cr;
          (err, tr2) = CreateOrUpdate r (ServiceObj service) tr1
      in if err \<noteq> None then (Inr (clusterStageFail StageCnService action err), tr2)
         else
     (let peerService = MakeCnPeerService (builders d) cr;
          (err, tr3) = CreateOrUpdate r (ServiceObj peerService) tr2
      in if err \<noteq> None then (Inr (clusterStageFail StageCnService action err), tr3)
         else
     (let statefulSet = MakeCnStatefulSet (builders d) cr
      in case setConfHashAnnotation d statefulSet (CnConfHashAnnotationKey d) configMap of
           Inl p \<Rightarrow> (Inl p, tr3)
         | Inr statefulSet \<Rightarrow>
             (let ((autoScaler, err), tr4) =
                    FindRefDorisAutoScaler r (ObjectKeyFromObject cr) tr3
              in if err \<noteq> None
                 then (Inr (clusterStageFail StageCnStatefulSet action err), tr4)
                 else
             (let statefulSet =
                    (if autoScaler \<noteq> None
                     then statefulSet\<lparr>sts_Spec := (sts_Spec statefulSet)\<lparr>Replicas := None\<rparr>\<rparr>
                     else statefulSet);
                  (err, tr5) = CreateOrUpdate r (StatefulSetObj (Some statefulSet)) tr4
              in if err \<noteq> None
                 then (Inr (clusterStageFail StageCnStatefulSet action err), tr5)
                 else (Inr (clusterStageSucc StageCn action), tr5)))))))"

definition recCnResources_deleteRes ::
  "deps \<Rightarrow> ReconcileContext \<Rightarrow> DorisCluster \<Rightarrow> stage_fn" where
  "recCnResources_deleteRes d r cr tr =
     (let action = StageActionDelete;
          statefulsetRef = GetCnStatefulSetKey (keys d) (ObjKey (util d) cr);
          (err, tr1) = DeleteWhenExist r statefulsetRef StatefulSetKind tr
      in if err \<noteq> None then (Inr (clusterStageFail StageCnConfigmap action err), tr1)
         else
     (let serviceRef = GetCnServiceKey (keys d) (ObjKey (util d) cr);
          (err, tr2) = DeleteWhenExist r serviceRef ServiceKind tr1
      in if err \<noteq> None then (Inr (clusterStageFail StageCnConfigmap action err), tr2)
         else
     (let peerServiceRef = GetCnPeerServiceKey (keys d) (ObjKey (util d) cr);
          (err, tr3) = DeleteWhenExist r peerServiceRef ServiceKind tr2
      in if err \<noteq> None then (Inr (clusterStageFail StageCnConfigmap action err), tr3)
         else
     (let configMapRef = GetCnConfigMapKey (keys d) (ObjKey (util d) cr);
          (err, tr4) = DeleteWhenExist r configMapRef ConfigMapKind tr3
      in if err \<noteq> None then (Inr (clusterStageFail StageCnConfigmap action err), tr4)
         else (Inr (clusterStageSucc StageCn action), tr4)))))"

definition recCnResources :: "deps \<Rightarrow> ReconcileContext \<Rightarrow> DorisCluster \<Rightarrow> stage_fn" where
  "recCnResources d r cr =
     (if CN (Spec cr) \<noteq> None then recCnResources_applyRes d r cr
      else recCnResources_deleteRes d r cr)"

definition recBrokerResources_applyRes ::
  "deps \<Rightarrow> ReconcileContext \<Rightarrow> DorisCluster \<Rightarrow> stage_fn" where
  "recBrokerResources_applyRes d r cr tr =
     (let action = StageActionApply;
          configMap = MakeBrokerConfigMap (builders d) cr;
          (err, tr1) = CreateOrUpdate r (ConfigMapObj configMap) tr
      in if err \<noteq> None then (Inr (clusterStageFail StageBrokerConfigmap action err), tr1)
         else
     (let peerService = MakeBrokerPeerService (builders d) cr;
          (err, tr2) = CreateOrUpdate r (ServiceObj peerService) tr1
      in if err \<noteq> None then (Inr (clusterStageFail StageBrokerService action err), tr2)
         else
     (let statefulSet = MakeBrokerStatefulSet (builders d) cr
      in case setConfHashAnnotation d statefulSet (BrokerConfHashAnnotationKey d) configMap of
           Inl p \<Rightarrow> (Inl p, tr2)
         | Inr statefulSet \<Rightarrow>
             (let (err, tr3) = CreateOrUpdate r (StatefulSetObj (Some statefulSet)) tr2
              in if err \<noteq> None
                 then (Inr (clusterStageFail StageBrokerStatefulSet action err), tr3)
                 else (Inr (clusterStageSucc StageBroker action), tr3)))))"

definition recBrokerResources_deleteRes ::
  "deps \<Rightarrow> ReconcileContext \<Rightarrow> DorisCluster \<Rightarrow> stage_fn" where
  "recBrokerResources_deleteRes d r cr tr =
     (let action = StageActionDelete;
          statefulsetRef = GetBrokerStatefulSetKey (keys d) (ObjKey (util d) cr);
          (err, tr1) = DeleteWhenExist r statefulsetRef StatefulSetKind tr
      in if err \<noteq> None then (Inr (clusterStageFail StageBrokerConfigmap action err), tr1)
         else
     (let peerServiceRef = GetBrokerPeerServiceKey (keys d) (ObjKey (util d) cr);
          (err, tr2) = DeleteWhenExist r peerServiceRef ServiceKind tr1
      in if err \<noteq> None then (Inr (clusterStageFail StageBrokerConfigmap action err), tr2)
         else
     (let configMapRef = GetBrokerConfigMapKey (keys d) (ObjKey (util d) cr);
          (err, tr3) = DeleteWhenExist r configMapRef ConfigMapKind tr2
      in if err \<noteq> None then (Inr (clusterStageFail StageBrokerConfigmap action err), tr3)
         else (Inr (clusterStageSucc StageBroker action), tr3))))"

definition recBrokerResources :: "deps \<Rightarrow> ReconcileContext \<Rightarrow> DorisCluster \<Rightarrow> stage_fn" where
  "recBrokerResources d r cr =
     (if Broker (Spec cr) \<noteq> None then recBrokerResources_applyRes d r cr
      else recBrokerResources_deleteRes d r cr)"

subsection \<open>The cluster reconciler\<close>

text \<open>
  The loop of \<^verbatim>\<open>Reconcile\<close> over the slice of stage functions: it returns the first
  result whose error is not nil, and the complete result when the slice is exhausted.
  A stage that panics ends the pass with the panic.
\<close>

fun run_stages :: "stage_fn list \<Rightarrow> stage_fn" where
  "run_stages [] tr =
     (Inr \<lparr>Stage = StageComplete, Status = StageResultSucceeded,
           Action = StageActionUnset, Err = None\<rparr>, tr)"
| "run_stages (fn # stages) tr =
     (case fn tr of
        (Inl p, tr') \<Rightarrow> (Inl p, tr')
      | (Inr result, tr') \<Rightarrow>
          if Err result \<noteq> None then (Inr result, tr') else run_stages stages tr')"

definition Reconcile :: "deps \<Rightarrow> ReconcileContext \<Rightarrow> DorisCluster \<Rightarrow> stage_fn" where
  "Reconcile d r cr =
     run_stages
       [recOprAccountSecret d r cr,
        recFeResources d r cr,
        recBeResources d r cr,
        recCnResources d r cr,
        recBrokerResources d r cr]"

subsection \<open>The four roles\<close>

text \<open>
  The source writes the apply and delete paths out once per role. To speak of all
  four at once, a role selects its stage function, the builder of its configuration
  bundle, its configuration entries in the cluster specification (nil when the role
  is not declared) and its annotation key.
\<close>

datatype role = RoleFe | RoleBe | RoleCn | RoleBroker

definition role_stage :: "role \<Rightarrow> deps \<Rightarrow> ReconcileContext \<Rightarrow> DorisCluster \<Rightarrow> stage_fn" where
  "role_stage X =
     (case X of
        RoleFe \<Rightarrow> recFeResources
      | RoleBe \<Rightarrow> recBeResources
      | RoleCn \<Rightarrow> recCnResources
      | RoleBroker \<Rightarrow> recBrokerResources)"

definition role_bundle :: "role \<Rightarrow> deps \<Rightarrow> DorisCluster \<Rightarrow> ConfigMap option" where
  "role_bundle X d cr =
     (case X of
        RoleFe \<Rightarrow> MakeFeConfigMap d cr
      | RoleBe \<Rightarrow> MakeBeConfigMap (builders d) cr
      | RoleCn \<Rightarrow> MakeCnConfigMap (builders d) cr
      | RoleBroker \<Rightarrow> MakeBrokerConfigMap (builders d) cr)"

definition role_configs :: "role \<Rightarrow> DorisCluster \<Rightarrow> gomap option" where
  "role_configs X cr =
     (case X of
        RoleFe \<Rightarrow> map_option fe_Configs (FE (Spec cr))
      | RoleBe \<Rightarrow> map_option be_Configs (BE (Spec cr))
      | RoleCn \<Rightarrow> map_option cn_Configs (CN (Spec cr))
      | RoleBroker \<Rightarrow> map_option broker_Configs (Broker (Spec cr)))"

definition role_hash_key :: "role \<Rightarrow> deps \<Rightarrow> string" where
  "role_hash_key X d =
     (case X of
        RoleFe \<Rightarrow> FeConfHashAnnotationKey d
      | RoleBe \<Rightarrow> BeConfHashAnnotationKey d
      | RoleCn \<Rightarrow> CnConfHashAnnotationKey d
      | RoleBroker \<Rightarrow> BrokerConfHashAnnotationKey d)"

section \<open>An instance of the parameters\<close>

text \<open>
  The theorems below hold for every value of the parameters unless they name the
  instance \<open>model_deps\<close>: what they say of the renderer, the digest, the merge and the
  bundles of BE, CN and Broker, none of which is part of the two files, they say of
  the definitions of this section. Where a theorem is evaluated at a concrete input,
  the parameters are instantiated with them as well.
\<close>

text \<open>
  Modelled from the spec: \<^verbatim>\<open>getPortValueFromRawConf\<close> is not part of the two files.
  Section 4.2 says that a port is read from a named key of the role's configuration
  and falls back to the compiled-in default when the key is absent. A value that is
  not a decimal number falls back as well.
\<close>

fun dec_value :: "string \<Rightarrow> nat \<Rightarrow> nat option" where
  "dec_value [] acc = Some acc"
| "dec_value (c # cs) acc =
     (if 48 \<le> (of_char c :: nat) \<and> (of_char c :: nat) \<le> 57
      then dec_value cs (10 * acc + (of_char c - 48))
      else None)"

definition model_getPortValueFromRawConf :: "gomap \<Rightarrow> string \<Rightarrow> int32 \<Rightarrow> int32" where
  "model_getPortValueFromRawConf conf key defaultValue =
     (case conf key of
        None \<Rightarrow> defaultValue
      | Some v \<Rightarrow>
          (if v = [] then defaultValue
           else (case dec_value v 0 of
                   None \<Rightarrow> defaultValue
                 | Some n \<Rightarrow> of_nat n)))"

text \<open>
  Modelled from the spec: \<^verbatim>\<open>dumpJavaBasedComponentConf\<close> and \<^verbatim>\<open>util.MapMd5\<close> are not part
  of the two files. The specification says that the bundle is built from the
  configuration entries, that the hash is a deterministic digest of the bundle's
  contents, that identical content gives an identical hash and any change of content a
  new one, and that a change of any configuration key changes the hash. Both are
  therefore the canonical rendering of a map: its entries in the order of their keys,
  key and value each preceded by its length in unary, so that the map can be read
  back from the text. A Go map is finite; the rendering tells finite maps apart.
\<close>

definition entries :: "gomap \<Rightarrow> (string \<times> string) list" where
  "entries m = map (\<lambda>k. (k, the (m k))) (sorted_list_of_set (dom m))"

definition enc :: "string \<Rightarrow> string" where
  "enc s = replicate (length s) (CHR ''#'') @ CHR '':'' # s"

definition canonical :: "gomap \<Rightarrow> string" where
  "canonical m = concat (map (\<lambda>(k, v). enc k @ enc v) (entries m))"

definition model_dumpJavaBasedComponentConf :: "gomap \<Rightarrow> string" where
  "model_dumpJavaBasedComponentConf = canonical"

definition model_MapMd5 :: "gomap \<Rightarrow> string" where
  "model_MapMd5 = canonical"

text \<open>
  Modelled from the spec: \<^verbatim>\<open>util.MergeMaps\<close> is not part of the two files. Section 4.2
  says that the shared auxiliary configuration is merged into the bundle; here an
  entry of the second map wins over an entry of the first with the same key.
\<close>

definition model_MergeMaps :: "gomap \<Rightarrow> gomap \<Rightarrow> gomap" where
  "model_MergeMaps a b = a ++ b"

definition model_util :: util_deps where
  "model_util =
     \<lparr>Group = ''al-assad.github.io'',
      SchemeKnowsCluster = True,
      MapMd5 = model_MapMd5,
      MergeMaps = model_MergeMaps,
      ObjKey = ObjectKeyFromObject,
      GetFeImage = (\<lambda>cr. ''doris-fe'')\<rparr>"

text \<open>
  Modelled from the spec: the key functions are not part of the two files. Section 3
  says that the identity of a managed object is the cluster's identity with a role
  tag, as in \<^verbatim>\<open><cluster-name>-fe\<close> and \<^verbatim>\<open><cluster-name>-fe-peer\<close>.
\<close>

definition with_suffix :: "string \<Rightarrow> NamespacedName \<Rightarrow> NamespacedName" where
  "with_suffix sfx k = k\<lparr>nn_Name := nn_Name k @ sfx\<rparr>"

definition model_helpers :: helper_deps where
  "model_helpers =
     \<lparr>MakeResourceLabels = (\<lambda>name component. [''cluster'' \<mapsto> name, ''component'' \<mapsto> component]),
      getPortValueFromRawConf = model_getPortValueFromRawConf,
      dumpJavaBasedComponentConf = model_dumpJavaBasedComponentConf,
      mergeHostAlias = (\<lambda>a b. a @ b),
      GetOprSqlAccountSecretName = (\<lambda>cr. with_suffix ''-opr-account'' (ObjectKeyFromObject cr)),
      PrometheusPathAnnoKey = ''prometheus.io/path'',
      PrometheusPortAnnoKey = ''prometheus.io/port'',
      PrometheusScrapeAnnoKey = ''prometheus.io/scrape''\<rparr>"

definition model_keys :: key_deps where
  "model_keys =
     \<lparr>GetOprSqlAccountSecretKey = with_suffix ''-opr-account'',
      GetFeStatefulSetKey = with_suffix ''-fe'',
      GetFeServiceKey = with_suffix ''-fe'',
      GetFePeerServiceKey = with_suffix ''-fe-peer'',
      GetFeConfigMapKey = with_suffix ''-fe-config'',
      GetBeStatefulSetKey = (\<lambda>cr. with_suffix ''-be'' (ObjectKeyFromObject cr)),
      GetBeServiceKey = with_suffix ''-be'',
      GetBePeerServiceKey = with_suffix ''-be-peer'',
      GetBeConfigMapKey = with_suffix ''-be-config'',
      GetCnStatefulSetKey = with_suffix ''-cn'',
      GetCnServiceKey = with_suffix ''-cn'',
      GetCnPeerServiceKey = with_suffix ''-cn-peer'',
      GetCnConfigMapKey = with_suffix ''-cn-config'',
      GetBrokerStatefulSetKey = with_suffix ''-broker'',
      GetBrokerPeerServiceKey = with_suffix ''-broker-peer'',
      GetBrokerConfigMapKey = with_suffix ''-broker-config''\<rparr>"

text \<open>
  Modelled from the spec: the builders of the secret and of the BE, CN and Broker
  objects are not part of the two files. Section 6 says that a builder returns a
  populated descriptor, or nil when the role is not declared, and section 4.2 that
  the bundle of a role is built from the role's configuration entries, merged with
  the shared auxiliary configuration when the cluster declares one. The bundle is the
  rendered entries under the role's file name, merged with the Hadoop configuration as
  \<^verbatim>\<open>MakeFeConfigMap\<close> does it. The other objects are small: a service without ports, and
  a StatefulSet whose replica count is the sub-specification's and whose own
  annotation map is initialised (with a nil map the apply path would panic before it
  reaches the autoscaler lookup).
\<close>

definition model_meta :: "DorisCluster \<Rightarrow> string \<Rightarrow> ObjectMeta" where
  "model_meta cr sfx =
     \<lparr>Name = Name (cr_ObjectMeta cr) @ sfx,
      Namespace = Namespace (cr_ObjectMeta cr),
      Labels = Map.empty,
      Annotations = Some Map.empty,
      OwnerReferences = [ObjectKeyFromObject cr]\<rparr>"

definition model_ConfigMap :: "DorisCluster \<Rightarrow> string \<Rightarrow> string \<Rightarrow> gomap \<Rightarrow> ConfigMap" where
  "model_ConfigMap cr sfx file conf =
     \<lparr>cm_ObjectMeta = model_meta cr sfx,
      Data = (case HadoopConf (Spec cr) of
                Some hc \<Rightarrow>
                  model_MergeMaps (Config hc) [file \<mapsto> model_dumpJavaBasedComponentConf conf]
              | None \<Rightarrow> [file \<mapsto> model_dumpJavaBasedComponentConf conf])\<rparr>"

definition model_Service :: "DorisCluster \<Rightarrow> string \<Rightarrow> Service" where
  "model_Service cr sfx =
     \<lparr>svc_ObjectMeta = model_meta cr sfx,
      svc_Spec = \<lparr>Ports = [], svc_Selector = Map.empty, svc_Type = ''ClusterIP'',
                  ClusterIP = [], ExternalTrafficPolicy = []\<rparr>\<rparr>"

definition model_StatefulSet :: "DorisCluster \<Rightarrow> string \<Rightarrow> int32 \<Rightarrow> StatefulSet" where
  "model_StatefulSet cr sfx n =
     \<lparr>sts_ObjectMeta = model_meta cr sfx,
      sts_Spec =
        \<lparr>Replicas = Some n,
         ServiceName = Name (cr_ObjectMeta cr) @ sfx @ ''-peer'',
         sts_Selector = Map.empty,
         VolumeClaimTemplates = [],
         Template =
           \<lparr>tpl_ObjectMeta =
              \<lparr>Name = [], Namespace = [], Labels = Map.empty,
               Annotations = Some Map.empty, OwnerReferences = []\<rparr>,
            tpl_Spec =
              \<lparr>Volumes = [], InitContainers = [], Containers = [],
               pod_ImagePullSecrets = [], ServiceAccountName = [],
               pod_Affinity = None, pod_Tolerations = [],
               pod_PriorityClassName = [], pod_HostAliases = []\<rparr>\<rparr>,
         UpdateStrategy = ''RollingUpdate''\<rparr>\<rparr>"

definition model_builders :: builder_deps where
  "model_builders =
     \<lparr>MakeOprSqlAccountSecret =
        (\<lambda>cr. Some \<lparr>sec_ObjectMeta = model_meta cr ''-opr-account'',
                     StringData = [''user'' \<mapsto> ''k8sopr'']\<rparr>),
      MakeBeConfigMap =
        (\<lambda>cr. map_option (\<lambda>be. model_ConfigMap cr ''-be-config'' ''be.conf'' (be_Configs be))
                 (BE (Spec cr))),
      MakeBeService = (\<lambda>cr. map_option (\<lambda>be. model_Service cr ''-be'') (BE (Spec cr))),
      MakeBePeerService =
        (\<lambda>cr. map_option (\<lambda>be. model_Service cr ''-be-peer'') (BE (Spec cr))),
      MakeBeStatefulSet =
        (\<lambda>cr. map_option (\<lambda>be. model_StatefulSet cr ''-be'' (be_Replicas be)) (BE (Spec cr))),
      MakeCnConfigMap =
        (\<lambda>cr. map_option (\<lambda>cn. model_ConfigMap cr ''-cn-config'' ''cn.conf'' (cn_Configs cn))
                 (CN (Spec cr))),
      MakeCnService = (\<lambda>cr. map_option (\<lambda>cn. model_Service cr ''-cn'') (CN (Spec cr))),
      MakeCnPeerService =
        (\<lambda>cr. map_option (\<lambda>cn. model_Service cr ''-cn-peer'') (CN (Spec cr))),
      MakeCnStatefulSet =
        (\<lambda>cr. map_option (\<lambda>cn. model_StatefulSet cr ''-cn'' (cn_Replicas cn)) (CN (Spec cr))),
      MakeBrokerConfigMap =
        (\<lambda>cr. map_option
                 (\<lambda>b. model_ConfigMap cr ''-broker-config'' ''broker.conf'' (broker_Configs b))
                 (Broker (Spec cr))),
      MakeBrokerPeerService =
        (\<lambda>cr. map_option (\<lambda>b. model_Service cr ''-broker-peer'') (Broker (Spec cr))),
      MakeBrokerStatefulSet =
        (\<lambda>cr. map_option (\<lambda>b. model_StatefulSet cr ''-broker'' (broker_Replicas b))
                 (Broker (Spec cr)))\<rparr>"

definition model_deps :: deps where
  "model_deps =
     \<lparr>util = model_util, helpers = model_helpers, keys = model_keys,
      builders = model_builders\<rparr>"

text \<open>
  Object stores for the examples. Their answers do not depend on the trace: the
  existence check answers \<open>ex\<close>, \<^verbatim>\<open>Create\<close> succeeds, \<^verbatim>\<open>CreateOrUpdate\<close> and
  \<^verbatim>\<open>DeleteWhenExist\<close> answer by the object or key, and the autoscaler lookup answers
  \<open>fnd\<close>. \<open>accept\<close> and \<open>delete_ok\<close> are the answers of a store that refuses nothing.
\<close>

definition store ::
  "bool \<Rightarrow> (object \<Rightarrow> error option) \<Rightarrow> (NamespacedName \<Rightarrow> kind \<Rightarrow> error option)
     \<Rightarrow> DorisAutoScaler option \<times> error option \<Rightarrow> ReconcileContext" where
  "store ex cou del fnd =
     \<lparr>Exist_answer = (\<lambda>tr key k. (ex, None)),
      Create_answer = (\<lambda>tr obj. None),
      CreateOrUpdate_answer = (\<lambda>tr obj. cou obj),
      DeleteWhenExist_answer = (\<lambda>tr key k. del key k),
      FindRefDorisAutoScaler_answer = (\<lambda>tr key. fnd)\<rparr>"

definition accept :: "object \<Rightarrow> error option" where
  "accept obj = None"

definition delete_ok :: "NamespacedName \<Rightarrow> kind \<Rightarrow> error option" where
  "delete_ok key k = None"

text \<open>
  Example clusters: \<open>cluster fe cn hc\<close> is the cluster \<^verbatim>\<open>demo/doris\<close> with the given FE and
  CN sub-specifications and Hadoop configuration, and neither BE nor Broker.
\<close>

definition cluster ::
  "FESpec option \<Rightarrow> CNSpec option \<Rightarrow> HadoopConfSpec option \<Rightarrow> DorisCluster" where
  "cluster fe cn hc =
     \<lparr>cr_ObjectMeta =
        \<lparr>Name = ''doris'', Namespace = ''demo'', Labels = Map.empty,
         Annotations = None, OwnerReferences = []\<rparr>,
      Spec =
        \<lparr>FE = fe, BE = None, CN = cn, Broker = None, HadoopConf = hc,
         ImagePullPolicy = [], ImagePullSecrets = [], ServiceAccount = [],
         Affinity = None, Tolerations = [], PriorityClassName = [],
         StatefulSetUpdateStrategy = None\<rparr>\<rparr>"

definition fe_spec :: "gomap \<Rightarrow> FeServiceSpec option \<Rightarrow> Affinity option \<Rightarrow> FESpec" where
  "fe_spec conf sv aff =
     \<lparr>fe_Replicas = 3, fe_Configs = conf, fe_Service = sv, fe_StorageClassName = None,
      fe_Requests = Map.empty, fe_AdditionalVolumes = [], fe_AdditionalEnvs = [],
      fe_AdditionalVolumeMounts = [], fe_AdditionalContainers = [],
      fe_AdditionalInitContainers = [], fe_HostAliases = [], fe_ServiceAccount = [],
      fe_Affinity = aff, fe_Tolerations = [], fe_PriorityClassName = [],
      fe_StatefulSetUpdateStrategy = None\<rparr>"

text \<open>
  The example cluster with CN declared, \<open>n\<close> replicas and no configuration entry, and
  the StatefulSet the stand-in builder makes for it with the configuration hash written
  by the apply path.
\<close>

definition cn_cluster :: "int32 \<Rightarrow> DorisCluster" where
  "cn_cluster n = cluster None (Some \<lparr>cn_Replicas = n, cn_Configs = Map.empty\<rparr>) None"

definition cn_workload :: "int32 \<Rightarrow> StatefulSet" where
  "cn_workload n =
     (model_StatefulSet (cn_cluster n) ''-cn'' n)
       \<lparr>sts_ObjectMeta :=
          (model_meta (cn_cluster n) ''-cn'')
            \<lparr>Annotations :=
               Some [''al-assad.github.io/cn-config'' \<mapsto>
                       model_MapMd5 [''cn.conf'' \<mapsto> model_dumpJavaBasedComponentConf Map.empty]]\<rparr>\<rparr>"

section \<open>Verification\<close>

subsection \<open>Auxiliary facts\<close>

lemmas client_defs = Exist_def Create_def CreateOrUpdate_def DeleteWhenExist_def
  FindRefDorisAutoScaler_def

lemmas result_defs = clusterStageFail_def clusterStageSucc_def

lemmas model_defs =
  model_deps_def model_util_def model_helpers_def model_keys_def model_builders_def
  model_meta_def model_ConfigMap_def model_Service_def model_StatefulSet_def
  with_suffix_def ObjectKeyFromObject_def store_def accept_def delete_ok_def cluster_def

lemma setConfHashAnnotation_Inr:
  "setConfHashAnnotation d statefulSet key configMap = Inr s' \<longleftrightarrow>
     (\<exists>s cm m. statefulSet = Some s \<and> configMap = Some cm \<and>
        Annotations (sts_ObjectMeta s) = Some m \<and>
        s' = s\<lparr>sts_ObjectMeta :=
                (sts_ObjectMeta s)
                  \<lparr>Annotations := Some (m(key \<mapsto> MapMd5 (util d) (Data cm)))\<rparr>\<rparr>)"
  by (auto simp: setConfHashAnnotation_def split: option.splits)

text \<open>Every stage function issues at least one call to the object store.\<close>

lemma recOprAccountSecret_emits:
  "length tr < length (snd (recOprAccountSecret d r cr tr))"
  by (simp add: recOprAccountSecret_def client_defs Let_def split_beta)

lemma recFeResources_emits: "length tr < length (snd (recFeResources d r cr tr))"
  by (simp add: recFeResources_def recFeResources_applyRes_def recFeResources_deleteRes_def
      client_defs Let_def split_beta split: sum.split)

lemma recBeResources_emits: "length tr < length (snd (recBeResources d r cr tr))"
  by (simp add: recBeResources_def recBeResources_applyRes_def recBeResources_deleteRes_def
      client_defs Let_def split_beta split: sum.split)

lemma recCnResources_emits: "length tr < length (snd (recCnResources d r cr tr))"
  by (simp add: recCnResources_def recCnResources_applyRes_def recCnResources_deleteRes_def
      client_defs Let_def split_beta split: sum.split)

lemma recBrokerResources_emits: "length tr < length (snd (recBrokerResources d r cr tr))"
  by (simp add: recBrokerResources_def recBrokerResources_applyRes_def
      recBrokerResources_deleteRes_def client_defs Let_def split_beta split: sum.split)

text \<open>Every stage function extends the trace it is given.\<close>

lemma recOprAccountSecret_extends:
  "\<exists>new. snd (recOprAccountSecret d r cr tr) = tr @ new"
  by (simp add: recOprAccountSecret_def client_defs Let_def split_beta)

lemma recFeResources_extends: "\<exists>new. snd (recFeResources d r cr tr) = tr @ new"
  by (simp add: recFeResources_def recFeResources_applyRes_def recFeResources_deleteRes_def
      client_defs Let_def split_beta split: sum.split)

lemma recBeResources_extends: "\<exists>new. snd (recBeResources d r cr tr) = tr @ new"
  by (simp add: recBeResources_def recBeResources_applyRes_def recBeResources_deleteRes_def
      client_defs Let_def split_beta split: sum.split)

lemma recCnResources_extends: "\<exists>new. snd (recCnResources d r cr tr) = tr @ new"
  by (simp add: recCnResources_def recCnResources_applyRes_def recCnResources_deleteRes_def
      client_defs Let_def split_beta split: sum.split)

lemma recBrokerResources_extends: "\<exists>new. snd (recBrokerResources d r cr tr) = tr @ new"
  by (simp add: recBrokerResources_def recBrokerResources_applyRes_def
      recBrokerResources_deleteRes_def client_defs Let_def split_beta split: sum.split)

text \<open>The four annotation keys are pairwise distinct.\<close>

lemma ConfHashAnnotationKeys_distinct:
  "distinct [FeConfHashAnnotationKey d, BeConfHashAnnotationKey d,
             CnConfHashAnnotationKey d, BrokerConfHashAnnotationKey d]"
  by (simp add: FeConfHashAnnotationKey_def BeConfHashAnnotationKey_def
      CnConfHashAnnotationKey_def BrokerConfHashAnnotationKey_def)

text \<open>The result of a stage function never carries the failed status.\<close>

lemma recOprAccountSecret_status:
  "recOprAccountSecret d r cr tr = (Inr res, tr') \<Longrightarrow> Status res = StageResultSucceeded"
  by (auto simp: recOprAccountSecret_def client_defs result_defs Let_def split_beta
      split: if_splits)

lemma recFeResources_status:
  "recFeResources d r cr tr = (Inr res, tr') \<Longrightarrow> Status res = StageResultSucceeded"
  by (auto simp: recFeResources_def recFeResources_applyRes_def recFeResources_deleteRes_def
        client_defs result_defs Let_def split_beta
      split: if_splits sum.splits)

lemma recBeResources_status:
  "recBeResources d r cr tr = (Inr res, tr') \<Longrightarrow> Status res = StageResultSucceeded"
  by (auto simp: recBeResources_def recBeResources_applyRes_def recBeResources_deleteRes_def
        client_defs result_defs Let_def split_beta
      split: if_splits sum.splits)

lemma recCnResources_status:
  "recCnResources d r cr tr = (Inr res, tr') \<Longrightarrow> Status res = StageResultSucceeded"
  by (auto simp: recCnResources_def recCnResources_applyRes_def recCnResources_deleteRes_def
        client_defs result_defs Let_def split_beta
      split: if_splits sum.splits)

lemma recBrokerResources_status:
  "recBrokerResources d r cr tr = (Inr res, tr') \<Longrightarrow> Status res = StageResultSucceeded"
  by (auto simp: recBrokerResources_def recBrokerResources_applyRes_def
        recBrokerResources_deleteRes_def client_defs result_defs Let_def split_beta
      split: if_splits sum.splits)

text \<open>The secret stage and the delete paths at the example cluster, on a store that
  holds the secret and deletes whatever it is asked to.\<close>

lemma recOprAccountSecret_example:
  "recOprAccountSecret model_deps (store True cou del fnd) (cluster fe cn hc) tr =
     (Inr \<lparr>Stage = StageSqlAccountSecret, Status = StageResultSucceeded,
           Action = StageActionApply, Err = None\<rparr>,
      tr @ [ExistCall \<lparr>nn_Namespace = ''demo'', nn_Name = ''doris-opr-account''\<rparr>
              SecretKind True None])"
  by (simp add: recOprAccountSecret_def client_defs result_defs model_defs Let_def)

lemma recFeResources_delete_example:
  "recFeResources model_deps (store ex cou delete_ok fnd) (cluster None cn hc) tr =
     (Inr \<lparr>Stage = StageFe, Status = StageResultSucceeded,
           Action = StageActionDelete, Err = None\<rparr>,
      tr @ [DeleteWhenExistCall \<lparr>nn_Namespace = ''demo'', nn_Name = ''doris-fe''\<rparr>
              StatefulSetKind None,
            DeleteWhenExistCall \<lparr>nn_Namespace = ''demo'', nn_Name = ''doris-fe''\<rparr>
              ServiceKind None,
            DeleteWhenExistCall \<lparr>nn_Namespace = ''demo'', nn_Name = ''doris-fe-peer''\<rparr>
              ServiceKind None,
            DeleteWhenExistCall \<lparr>nn_Namespace = ''demo'', nn_Name = ''doris-fe-config''\<rparr>
              ConfigMapKind None])"
  by (simp add: recFeResources_def recFeResources_deleteRes_def client_defs result_defs
      model_defs Let_def)

lemma recBeResources_delete_example:
  "recBeResources model_deps (store ex cou delete_ok fnd) (cluster fe cn hc) tr =
     (Inr \<lparr>Stage = StageBe, Status = StageResultSucceeded,
           Action = StageActionDelete, Err = None\<rparr>,
      tr @ [DeleteWhenExistCall \<lparr>nn_Namespace = ''demo'', nn_Name = ''doris-be''\<rparr>
              StatefulSetKind None,
            DeleteWhenExistCall \<lparr>nn_Namespace = ''demo'', nn_Name = ''doris-be''\<rparr>
              ServiceKind None,
            DeleteWhenExistCall \<lparr>nn_Namespace = ''demo'', nn_Name = ''doris-be-peer''\<rparr>
              ServiceKind None,
            DeleteWhenExistCall \<lparr>nn_Namespace = ''demo'', nn_Name = ''doris-be-config''\<rparr>
              ConfigMapKind None])"
  by (simp add: recBeResources_def recBeResources_deleteRes_def client_defs result_defs
      model_defs Let_def)

lemma recCnResources_delete_example:
  "recCnResources model_deps (store ex cou delete_ok fnd) (cluster fe None hc) tr =
     (Inr \<lparr>Stage = StageCn, Status = StageResultSucceeded,
           Action = StageActionDelete, Err = None\<rparr>,
      tr @ [DeleteWhenExistCall \<lparr>nn_Namespace = ''demo'', nn_Name = ''doris-cn''\<rparr>
              StatefulSetKind None,
            DeleteWhenExistCall \<lparr>nn_Namespace = ''demo'', nn_Name = ''doris-cn''\<rparr>
              ServiceKind None,
            DeleteWhenExistCall \<lparr>nn_Namespace = ''demo'', nn_Name = ''doris-cn-peer''\<rparr>
              ServiceKind None,
            DeleteWhenExistCall \<lparr>nn_Namespace = ''demo'', nn_Name = ''doris-cn-config''\<rparr>
              ConfigMapKind None])"
  by (simp add: recCnResources_def recCnResources_deleteRes_def client_defs result_defs
      model_defs Let_def)

lemma recBrokerResources_delete_example:
  "recBrokerResources model_deps (store ex cou delete_ok fnd) (cluster fe cn hc) tr =
     (Inr \<lparr>Stage = StageBroker, Status = StageResultSucceeded,
           Action = StageActionDelete, Err = None\<rparr>,
      tr @ [DeleteWhenExistCall \<lparr>nn_Namespace = ''demo'', nn_Name = ''doris-broker''\<rparr>
              StatefulSetKind None,
            DeleteWhenExistCall \<lparr>nn_Namespace = ''demo'', nn_Name = ''doris-broker-peer''\<rparr>
              ServiceKind None,
            DeleteWhenExistCall \<lparr>nn_Namespace = ''demo'', nn_Name = ''doris-broker-config''\<rparr>
              ConfigMapKind None])"
  by (simp add: recBrokerResources_def recBrokerResources_deleteRes_def client_defs
      result_defs model_defs Let_def)

subsection \<open>The cluster reconciler\<close>

text \<open>
  Claim C1. \<^verbatim>\<open>Reconcile\<close> runs the stages in the order shared secret, FE, BE, CN, Broker.
  The first stage whose result carries an error ends the pass: \<^verbatim>\<open>Reconcile\<close> returns
  exactly that result, and the trace is the trace at that stage's return, so no later
  stage has run (every stage function, once called, issues at least one call to the
  object store). When every stage returns a nil error, the result is the complete
  result: stage \<open>StageComplete\<close>, status succeeded, no action, no error.
\<close>

theorem Reconcile_first_failure:
  "(\<forall>r1 t1. recOprAccountSecret d r cr tr = (Inr r1, t1) \<longrightarrow>
      (Err r1 \<noteq> None \<longrightarrow> Reconcile d r cr tr = (Inr r1, t1)) \<and>
      (Err r1 = None \<longrightarrow>
   (\<forall>r2 t2. recFeResources d r cr t1 = (Inr r2, t2) \<longrightarrow>
      (Err r2 \<noteq> None \<longrightarrow> Reconcile d r cr tr = (Inr r2, t2)) \<and>
      (Err r2 = None \<longrightarrow>
   (\<forall>r3 t3. recBeResources d r cr t2 = (Inr r3, t3) \<longrightarrow>
      (Err r3 \<noteq> None \<longrightarrow> Reconcile d r cr tr = (Inr r3, t3)) \<and>
      (Err r3 = None \<longrightarrow>
   (\<forall>r4 t4. recCnResources d r cr t3 = (Inr r4, t4) \<longrightarrow>
      (Err r4 \<noteq> None \<longrightarrow> Reconcile d r cr tr = (Inr r4, t4)) \<and>
      (Err r4 = None \<longrightarrow>
   (\<forall>r5 t5. recBrokerResources d r cr t4 = (Inr r5, t5) \<longrightarrow>
      (Err r5 \<noteq> None \<longrightarrow> Reconcile d r cr tr = (Inr r5, t5)) \<and>
      (Err r5 = None \<longrightarrow>
         Reconcile d r cr tr =
           (Inr \<lparr>Stage = StageComplete, Status = StageResultSucceeded,
                 Action = StageActionUnset, Err = None\<rparr>, t5))))))))))) \<and>
   (\<forall>t. length t < length (snd (recFeResources d r cr t)) \<and>
        length t < length (snd (recBeResources d r cr t)) \<and>
        length t < length (snd (recCnResources d r cr t)) \<and>
        length t < length (snd (recBrokerResources d r cr t)))"
proof -
  have "\<forall>t. length t < length (snd (recFeResources d r cr t)) \<and>
        length t < length (snd (recBeResources d r cr t)) \<and>
        length t < length (snd (recCnResources d r cr t)) \<and>
        length t < length (snd (recBrokerResources d r cr t))"
    using recFeResources_emits recBeResources_emits recCnResources_emits
      recBrokerResources_emits by blast
  then show ?thesis
    by (simp add: Reconcile_def)
qed

text \<open>
  At the example cluster with no role declared and the secret present. When the store
  refuses to delete the BE StatefulSet, the pass ends in the BE stage after six calls
  and no call for a CN or Broker object is in the trace. When the store deletes
  everything, the pass runs all five stages, sixteen calls, and returns the complete
  result.
\<close>

theorem Reconcile_first_failure_witness:
  "Reconcile model_deps
     (store True accept
        (\<lambda>key k. if nn_Name key = ''doris-be'' \<and> k = StatefulSetKind then Some ''timeout''
                  else None)
        (None, None))
     (cluster None None None) [] =
   (Inr \<lparr>Stage = StageBeConfigmap, Status = StageResultSucceeded,
         Action = StageActionDelete, Err = Some ''timeout''\<rparr>,
    [ExistCall \<lparr>nn_Namespace = ''demo'', nn_Name = ''doris-opr-account''\<rparr> SecretKind True None,
     DeleteWhenExistCall \<lparr>nn_Namespace = ''demo'', nn_Name = ''doris-fe''\<rparr> StatefulSetKind None,
     DeleteWhenExistCall \<lparr>nn_Namespace = ''demo'', nn_Name = ''doris-fe''\<rparr> ServiceKind None,
     DeleteWhenExistCall \<lparr>nn_Namespace = ''demo'', nn_Name = ''doris-fe-peer''\<rparr> ServiceKind None,
     DeleteWhenExistCall \<lparr>nn_Namespace = ''demo'', nn_Name = ''doris-fe-config''\<rparr>
       ConfigMapKind None,
     DeleteWhenExistCall \<lparr>nn_Namespace = ''demo'', nn_Name = ''doris-be''\<rparr> StatefulSetKind
       (Some ''timeout'')]) \<and>
   Reconcile model_deps (store True accept delete_ok (None, None))
     (cluster None None None) [] =
   (Inr \<lparr>Stage = StageComplete, Status = StageResultSucceeded,
         Action = StageActionUnset, Err = None\<rparr>,
    [ExistCall \<lparr>nn_Namespace = ''demo'', nn_Name = ''doris-opr-account''\<rparr> SecretKind True None,
     DeleteWhenExistCall \<lparr>nn_Namespace = ''demo'', nn_Name = ''doris-fe''\<rparr> StatefulSetKind None,
     DeleteWhenExistCall \<lparr>nn_Namespace = ''demo'', nn_Name = ''doris-fe''\<rparr> ServiceKind None,
     DeleteWhenExistCall \<lparr>nn_Namespace = ''demo'', nn_Name = ''doris-fe-peer''\<rparr> ServiceKind None,
     DeleteWhenExistCall \<lparr>nn_Namespace = ''demo'', nn_Name = ''doris-fe-config''\<rparr>
       ConfigMapKind None,
     DeleteWhenExistCall \<lparr>nn_Namespace = ''demo'', nn_Name = ''doris-be''\<rparr> StatefulSetKind None,
     DeleteWhenExistCall \<lparr>nn_Namespace = ''demo'', nn_Name = ''doris-be''\<rparr> ServiceKind None,
     DeleteWhenExistCall \<lparr>nn_Namespace = ''demo'', nn_Name = ''doris-be-peer''\<rparr> ServiceKind None,
     DeleteWhenExistCall \<lparr>nn_Namespace = ''demo'', nn_Name = ''doris-be-config''\<rparr>
       ConfigMapKind None,
     DeleteWhenExistCall \<lparr>nn_Namespace = ''demo'', nn_Name = ''doris-cn''\<rparr> StatefulSetKind None,
     DeleteWhenExistCall \<lparr>nn_Namespace = ''demo'', nn_Name = ''doris-cn''\<rparr> ServiceKind None,
     DeleteWhenExistCall \<lparr>nn_Namespace = ''demo'', nn_Name = ''doris-cn-peer''\<rparr> ServiceKind None,
     DeleteWhenExistCall \<lparr>nn_Namespace = ''demo'', nn_Name = ''doris-cn-config''\<rparr>
       ConfigMapKind None,
     DeleteWhenExistCall \<lparr>nn_Namespace = ''demo'', nn_Name = ''doris-broker''\<rparr>
       StatefulSetKind None,
     DeleteWhenExistCall \<lparr>nn_Namespace = ''demo'', nn_Name = ''doris-broker-peer''\<rparr>
       ServiceKind None,
     DeleteWhenExistCall \<lparr>nn_Namespace = ''demo'', nn_Name = ''doris-broker-config''\<rparr>
       ConfigMapKind None])"
  (is "?failing \<and> ?complete")
proof
  let ?r = "store True accept
        (\<lambda>key k. if nn_Name key = ''doris-be'' \<and> k = StatefulSetKind then Some ''timeout''
                  else None)
        (None, None)"
  let ?cr = "cluster None None None"
  have s1: "recOprAccountSecret model_deps ?r ?cr [] =
     (Inr \<lparr>Stage = StageSqlAccountSecret, Status = StageResultSucceeded,
           Action = StageActionApply, Err = None\<rparr>,
      [ExistCall \<lparr>nn_Namespace = ''demo'', nn_Name = ''doris-opr-account''\<rparr>
              SecretKind True None])"
    by (simp add: recOprAccountSecret_example)
  have s2: "recFeResources model_deps ?r ?cr
      [ExistCall \<lparr>nn_Namespace = ''demo'', nn_Name = ''doris-opr-account''\<rparr>
              SecretKind True None] =
     (Inr \<lparr>Stage = StageFe, Status = StageResultSucceeded,
           Action = StageActionDelete, Err = None\<rparr>,
      [ExistCall \<lparr>nn_Namespace = ''demo'', nn_Name = ''doris-opr-account''\<rparr>
              SecretKind True None,
       DeleteWhenExistCall \<lparr>nn_Namespace = ''demo'', nn_Name = ''doris-fe''\<rparr>
              StatefulSetKind None,
       DeleteWhenExistCall \<lparr>nn_Namespace = ''demo'', nn_Name = ''doris-fe''\<rparr>
              ServiceKind None,
       DeleteWhenExistCall \<lparr>nn_Namespace = ''demo'', nn_Name = ''doris-fe-peer''\<rparr>
              ServiceKind None,
       DeleteWhenExistCall \<lparr>nn_Namespace = ''demo'', nn_Name = ''doris-fe-config''\<rparr>
              ConfigMapKind None])"
    by (simp add: recFeResources_def recFeResources_deleteRes_def client_defs result_defs
        model_defs Let_def)
  have s3: "recBeResources model_deps ?r ?cr
      [ExistCall \<lparr>nn_Namespace = ''demo'', nn_Name = ''doris-opr-account''\<rparr>
              SecretKind True None,
       DeleteWhenExistCall \<lparr>nn_Namespace = ''demo'', nn_Name = ''doris-fe''\<rparr>
              StatefulSetKind None,
       DeleteWhenExistCall \<lparr>nn_Namespace = ''demo'', nn_Name = ''doris-fe''\<rparr>
              ServiceKind None,
       DeleteWhenExistCall \<lparr>nn_Namespace = ''demo'', nn_Name = ''doris-fe-peer''\<rparr>
              ServiceKind None,
       DeleteWhenExistCall \<lparr>nn_Namespace = ''demo'', nn_Name = ''doris-fe-config''\<rparr>
              ConfigMapKind None] =
     (Inr \<lparr>Stage = StageBeConfigmap, Status = StageResultSucceeded,
           Action = StageActionDelete, Err = Some ''timeout''\<rparr>,
      [ExistCall \<lparr>nn_Namespace = ''demo'', nn_Name = ''doris-opr-account''\<rparr>
              SecretKind True None,
       DeleteWhenExistCall \<lparr>nn_Namespace = ''demo'', nn_Name = ''doris-fe''\<rparr>
              StatefulSetKind None,
       DeleteWhenExistCall \<lparr>nn_Namespace = ''demo'', nn_Name = ''doris-fe''\<rparr>
              ServiceKind None,
       DeleteWhenExistCall \<lparr>nn_Namespace = ''demo'', nn_Name = ''doris-fe-peer''\<rparr>
              ServiceKind None,
       DeleteWhenExistCall \<lparr>nn_Namespace = ''demo'', nn_Name = ''doris-fe-config''\<rparr>
              ConfigMapKind None,
       DeleteWhenExistCall \<lparr>nn_Namespace = ''demo'', nn_Name = ''doris-be''\<rparr>
              StatefulSetKind (Some ''timeout'')])"
    by (simp add: recBeResources_def recBeResources_deleteRes_def client_defs result_defs
        model_defs Let_def)
  show ?failing
    using Reconcile_first_failure [of model_deps ?r ?cr "[]"]
    by (simp add: s1 s2 s3)
next
  show ?complete
    using Reconcile_first_failure
      [of model_deps "store True accept delete_ok (None, None)"
        "cluster None None None" "[]"]
    by (simp add: recOprAccountSecret_example recFeResources_delete_example
        recBeResources_delete_example recCnResources_delete_example
        recBrokerResources_delete_example)
qed

subsection \<open>Stage results\<close>

text \<open>
  Claim C3 (the code departs from it). \<^verbatim>\<open>clusterStageFail\<close> fills the status with
  \<open>StageResultSucceeded\<close>, so no result of a stage function carries the failed status,
  whether it carries an error or not.
\<close>

theorem stage_status_never_failed:
  "Status (clusterStageFail stage action err) = StageResultSucceeded \<and>
   (recOprAccountSecret d r cr tr = (Inr res, tr') \<longrightarrow> Status res = StageResultSucceeded) \<and>
   (recFeResources d r cr tr = (Inr res, tr') \<longrightarrow> Status res = StageResultSucceeded) \<and>
   (recBeResources d r cr tr = (Inr res, tr') \<longrightarrow> Status res = StageResultSucceeded) \<and>
   (recCnResources d r cr tr = (Inr res, tr') \<longrightarrow> Status res = StageResultSucceeded) \<and>
   (recBrokerResources d r cr tr = (Inr res, tr') \<longrightarrow> Status res = StageResultSucceeded)"
  using recOprAccountSecret_status recFeResources_status recBeResources_status
    recCnResources_status recBrokerResources_status
  by (simp add: clusterStageFail_def)

text \<open>
  The secret stage on a store whose existence check fails: the result carries the
  error and the succeeded status.
\<close>

theorem stage_status_never_failed_witness:
  "recOprAccountSecret model_deps
     ((store True accept delete_ok (None, None))
        \<lparr>Exist_answer := (\<lambda>tr key k. (False, Some ''connection refused''))\<rparr>)
     (cluster None None None) [] =
   (Inr \<lparr>Stage = StageSqlAccountSecret, Status = StageResultSucceeded,
         Action = StageActionApply, Err = Some ''connection refused''\<rparr>,
    [ExistCall \<lparr>nn_Namespace = ''demo'', nn_Name = ''doris-opr-account''\<rparr> SecretKind False
       (Some ''connection refused'')]) \<and>
   Status \<lparr>Stage = StageSqlAccountSecret, Status = StageResultSucceeded,
         Action = StageActionApply, Err = Some ''connection refused''\<rparr> = StageResultSucceeded"
proof -
  let ?r = "(store True accept delete_ok (None, None))
        \<lparr>Exist_answer := (\<lambda>tr key k. (False, Some ''connection refused''))\<rparr>"
  have run: "recOprAccountSecret model_deps ?r (cluster None None None) [] =
     (Inr \<lparr>Stage = StageSqlAccountSecret, Status = StageResultSucceeded,
         Action = StageActionApply, Err = Some ''connection refused''\<rparr>,
      [ExistCall \<lparr>nn_Namespace = ''demo'', nn_Name = ''doris-opr-account''\<rparr> SecretKind False
       (Some ''connection refused'')])"
    by (simp add: recOprAccountSecret_def client_defs result_defs model_defs Let_def)
  from run stage_status_never_failed [of StageSqlAccountSecret StageActionApply
        "Some ''connection refused''" model_deps ?r "cluster None None None" "[]"]
  have "Status \<lparr>Stage = StageSqlAccountSecret, Status = StageResultSucceeded,
         Action = StageActionApply, Err = Some ''connection refused''\<rparr> = StageResultSucceeded"
    by blast
  with run show ?thesis
    by (rule conjI)
qed

subsection \<open>The shared-secret stage\<close>

text \<open>
  Claim C8. When the existence check reports the credential secret present, the
  stage returns success and its only call is the existence check: no create and no
  update is issued, so the stored secret is left as it is. Whatever the store answers,
  the stage issues a create only after the existence check has reported the secret
  absent (without an error), and it never issues an update or a delete.
\<close>

theorem recOprAccountSecret_existing:
  "(Exist_answer r tr (GetOprSqlAccountSecretKey (keys d) (ObjKey (util d) cr)) SecretKind
      = (True, None) \<longrightarrow>
    recOprAccountSecret d r cr tr =
      (Inr \<lparr>Stage = StageSqlAccountSecret, Status = StageResultSucceeded,
            Action = StageActionApply, Err = None\<rparr>,
       tr @ [ExistCall (GetOprSqlAccountSecretKey (keys d) (ObjKey (util d) cr))
               SecretKind True None])) \<and>
   (\<forall>out new.
      recOprAccountSecret d r cr tr = (out, tr @ new) \<longrightarrow>
      (\<forall>obj e. CreateCall obj e \<in> set new \<longrightarrow>
         Exist_answer r tr (GetOprSqlAccountSecretKey (keys d) (ObjKey (util d) cr)) SecretKind
           = (False, None) \<and>
         obj = SecretObj (MakeOprSqlAccountSecret (builders d) cr)) \<and>
      (\<forall>obj e. CreateOrUpdateCall obj e \<notin> set new) \<and>
      (\<forall>key k e. DeleteWhenExistCall key k e \<notin> set new))"
  by (auto simp: recOprAccountSecret_def client_defs result_defs Let_def split_beta prod_eq_iff
      split: if_splits)

text \<open>
  At the example cluster: with the secret present the trace is the existence check
  alone; with the secret absent it is the existence check followed by one create.
\<close>

theorem recOprAccountSecret_existing_witness:
  "recOprAccountSecret model_deps (store True accept delete_ok (None, None))
     (cluster None None None) [] =
   (Inr \<lparr>Stage = StageSqlAccountSecret, Status = StageResultSucceeded,
         Action = StageActionApply, Err = None\<rparr>,
    [ExistCall \<lparr>nn_Namespace = ''demo'', nn_Name = ''doris-opr-account''\<rparr> SecretKind True None]) \<and>
   recOprAccountSecret model_deps (store False accept delete_ok (None, None))
     (cluster None None None) [] =
   (Inr \<lparr>Stage = StageSqlAccountSecret, Status = StageResultSucceeded,
         Action = StageActionApply, Err = None\<rparr>,
    [ExistCall \<lparr>nn_Namespace = ''demo'', nn_Name = ''doris-opr-account''\<rparr> SecretKind False None,
     CreateCall (SecretObj (MakeOprSqlAccountSecret model_builders (cluster None None None)))
       None]) \<and>
   Exist_answer (store False accept delete_ok (None, None)) []
     \<lparr>nn_Namespace = ''demo'', nn_Name = ''doris-opr-account''\<rparr> SecretKind = (False, None)"
  (is "?present \<and> ?absent \<and> ?answer")
proof (intro conjI)
  show ?present
    using recOprAccountSecret_existing
      [of "store True accept delete_ok (None, None)" "[]" model_deps
        "cluster None None None"]
    by (simp add: model_defs)
next
  show ?absent
    by (simp add: recOprAccountSecret_def client_defs result_defs model_defs Let_def)
next
  show ?answer
    by (simp add: store_def)
qed

subsection \<open>The delete path\<close>

text \<open>
  Claim C7 (the code departs from it). With the FE role absent the first deletion is
  the StatefulSet's. When it fails the stage aborts with the error and attempts no
  further deletion, as the claim says; but the stage identifier of the result is
  \<open>StageFeConfigmap\<close>, the identifier of the configuration bundle, although the step
  that failed is the deletion of the StatefulSet. The delete paths of all four roles
  report every failure under the role's \<^verbatim>\<open>Configmap\<close> stage.
\<close>

theorem recFeResources_delete_failure_stage:
  assumes "FE (Spec cr) = None"
  shows "(\<forall>e. DeleteWhenExist_answer r tr (GetFeStatefulSetKey (keys d) (ObjKey (util d) cr))
                StatefulSetKind = Some e \<longrightarrow>
              recFeResources d r cr tr =
                (Inr \<lparr>Stage = StageFeConfigmap, Status = StageResultSucceeded,
                      Action = StageActionDelete, Err = Some e\<rparr>,
                 tr @ [DeleteWhenExistCall (GetFeStatefulSetKey (keys d) (ObjKey (util d) cr))
                         StatefulSetKind (Some e)])) \<and>
         (\<forall>res tr'. recFeResources d r cr tr = (Inr res, tr') \<longrightarrow> Err res \<noteq> None \<longrightarrow>
              Stage res = StageFeConfigmap)"
  using assms
  by (auto simp: recFeResources_def recFeResources_deleteRes_def client_defs result_defs
        Let_def split_beta
      split: if_splits)

text \<open>
  At the example cluster, on a store that refuses to delete a StatefulSet: one call,
  reported under the stage of the configuration bundle.
\<close>

theorem recFeResources_delete_failure_stage_witness:
  "recFeResources model_deps
     (store True accept (\<lambda>key k. if k = StatefulSetKind then Some ''forbidden'' else None)
        (None, None))
     (cluster None None None) [] =
   (Inr \<lparr>Stage = StageFeConfigmap, Status = StageResultSucceeded,
         Action = StageActionDelete, Err = Some ''forbidden''\<rparr>,
    [DeleteWhenExistCall \<lparr>nn_Namespace = ''demo'', nn_Name = ''doris-fe''\<rparr> StatefulSetKind
       (Some ''forbidden'')])"
proof -
  have fe: "FE (Spec (cluster None None None)) = None"
    by (simp add: cluster_def)
  from recFeResources_delete_failure_stage
    [OF fe,
      of "store True accept
         (\<lambda>key k. if k = StatefulSetKind then Some ''forbidden'' else None) (None, None)"
      "[]" model_deps]
  show ?thesis
    by (simp add: model_defs)
qed

subsection \<open>The apply path\<close>

text \<open>
  Claim C10 (the code departs from it). For every cluster that declares FE,
  \<^verbatim>\<open>MakeFeStatefulSet\<close> returns a StatefulSet whose own \<^verbatim>\<open>Annotations\<close> map is nil; only the
  pod template's map is initialised. The assignment
  \<^verbatim>\<open>statefulSet.Annotations[FeConfHashAnnotationKey] = ...\<close> of the FE apply path therefore
  panics: the FE stage with FE declared either stops at a failed apply of the bundle
  or of a service, or panics with an assignment to an entry in a nil map; it never
  applies a StatefulSet and never returns a result without an error.
\<close>

theorem MakeFeStatefulSet_Annotations_nil:
  assumes "FE (Spec cr) \<noteq> None"
  shows "(\<exists>s. MakeFeStatefulSet d cr = Some s \<and>
              Annotations (sts_ObjectMeta s) = None \<and>
              Annotations (tpl_ObjectMeta (Template (sts_Spec s))) \<noteq> None) \<and>
         setConfHashAnnotation d (MakeFeStatefulSet d cr) (FeConfHashAnnotationKey d)
             (MakeFeConfigMap d cr) = Inl AssignmentToEntryInNilMap \<and>
         (\<forall>out new. recFeResources d r cr tr = (out, tr @ new) \<longrightarrow>
            (out = Inl AssignmentToEntryInNilMap \<or> (\<exists>res. out = Inr res \<and> Err res \<noteq> None)) \<and>
            (\<forall>obj e. CreateOrUpdateCall (StatefulSetObj obj) e \<notin> set new))"
proof -
  from assms obtain fe where fe: "FE (Spec cr) = Some fe" by blast
  have a: "\<exists>s. MakeFeStatefulSet d cr = Some s \<and>
              Annotations (sts_ObjectMeta s) = None \<and>
              Annotations (tpl_ObjectMeta (Template (sts_Spec s))) \<noteq> None"
    by (simp add: MakeFeStatefulSet_def fe Let_def SetOwnerReference_def Storage_def
        split: option.split)
  have b: "setConfHashAnnotation d (MakeFeStatefulSet d cr) (FeConfHashAnnotationKey d)
             (MakeFeConfigMap d cr) = Inl AssignmentToEntryInNilMap"
    using a by (auto simp: setConfHashAnnotation_def MakeFeConfigMap_def fe Let_def)
  have c: "\<forall>out new. recFeResources d r cr tr = (out, tr @ new) \<longrightarrow>
            (out = Inl AssignmentToEntryInNilMap \<or> (\<exists>res. out = Inr res \<and> Err res \<noteq> None)) \<and>
            (\<forall>obj e. CreateOrUpdateCall (StatefulSetObj obj) e \<notin> set new)"
    by (auto simp: recFeResources_def recFeResources_applyRes_def fe b client_defs result_defs
          Let_def split_beta
        split: if_splits)
  from a b c show ?thesis by blast
qed

text \<open>
  At the example cluster with FE declared, on a store that accepts every call: the
  bundle and the two services are applied, then the stage panics.
\<close>

theorem MakeFeStatefulSet_Annotations_nil_witness:
  "recFeResources model_deps (store True accept delete_ok (None, None))
     (cluster (Some (fe_spec Map.empty None None)) None None) [] =
   (Inl AssignmentToEntryInNilMap,
    [CreateOrUpdateCall
       (ConfigMapObj
          (MakeFeConfigMap model_deps (cluster (Some (fe_spec Map.empty None None)) None None)))
       None,
     CreateOrUpdateCall
       (ServiceObj
          (MakeFeService model_deps (cluster (Some (fe_spec Map.empty None None)) None None)))
       None,
     CreateOrUpdateCall
       (ServiceObj
          (MakeFePeerService model_deps (cluster (Some (fe_spec Map.empty None None)) None None)
             Map.empty))
       None])"
proof -
  let ?cr = "cluster (Some (fe_spec Map.empty None None)) None None"
  have fe: "FE (Spec ?cr) \<noteq> None"
    by (simp add: cluster_def)
  from MakeFeStatefulSet_Annotations_nil [OF fe, of model_deps]
  have "setConfHashAnnotation model_deps (MakeFeStatefulSet model_deps ?cr)
          (FeConfHashAnnotationKey model_deps) (MakeFeConfigMap model_deps ?cr) =
        Inl AssignmentToEntryInNilMap"
    by blast
  then show ?thesis
    using fe
    by (simp add: recFeResources_def recFeResources_applyRes_def client_defs store_def
        accept_def Let_def)
qed

text \<open>The CN apply path at the example cluster, on a store that accepts every call.\<close>

lemma recCnResources_apply_example:
  "recCnResources model_deps (store ex accept del (a, None)) (cn_cluster n) tr =
     (Inr \<lparr>Stage = StageCn, Status = StageResultSucceeded,
           Action = StageActionApply, Err = None\<rparr>,
      tr @ [CreateOrUpdateCall (ConfigMapObj (MakeCnConfigMap model_builders (cn_cluster n))) None,
            CreateOrUpdateCall (ServiceObj (MakeCnService model_builders (cn_cluster n))) None,
            CreateOrUpdateCall (ServiceObj (MakeCnPeerService model_builders (cn_cluster n))) None,
            FindRefDorisAutoScalerCall \<lparr>nn_Namespace = ''demo'', nn_Name = ''doris''\<rparr> a None,
            CreateOrUpdateCall
              (StatefulSetObj
                 (Some (if a \<noteq> None
                        then (cn_workload n)\<lparr>sts_Spec := (sts_Spec (cn_workload n))\<lparr>Replicas := None\<rparr>\<rparr>
                        else cn_workload n)))
              None])"
  by (simp add: recCnResources_def recCnResources_applyRes_def client_defs result_defs
      setConfHashAnnotation_def CnConfHashAnnotationKey_def cn_cluster_def cn_workload_def
      model_defs Let_def)

text \<open>
  Claim C4. With CN declared, every StatefulSet the CN stage hands to
  \<^verbatim>\<open>CreateOrUpdate\<close> comes after an autoscaler lookup that returned no error, and the
  stage makes no other lookup. When the lookup returned a binding, the replica count
  of the StatefulSet handed over is nil, whatever the builder had put there from the
  sub-specification; when it returned null, the replica count is the one the builder
  put there, hence the sub-specification's when the builder copies it. The builder
  \<^verbatim>\<open>MakeCnStatefulSet\<close> is not part of the two files.
\<close>

theorem recCnResources_replicas:
  assumes "CN (Spec cr) \<noteq> None"
    and "recCnResources d r cr tr = (out, tr @ new)"
    and "CreateOrUpdateCall (StatefulSetObj obj) e \<in> set new"
  shows "\<exists>a s0 s.
           FindRefDorisAutoScalerCall (ObjectKeyFromObject cr) a None \<in> set new \<and>
           (\<forall>k a' e'. FindRefDorisAutoScalerCall k a' e' \<in> set new \<longrightarrow> a' = a) \<and>
           MakeCnStatefulSet (builders d) cr = Some s0 \<and> obj = Some s \<and>
           (a \<noteq> None \<longrightarrow> Replicas (sts_Spec s) = None) \<and>
           (a = None \<longrightarrow> Replicas (sts_Spec s) = Replicas (sts_Spec s0)) \<and>
           (\<forall>cn. a = None \<and> CN (Spec cr) = Some cn \<and>
                 Replicas (sts_Spec s0) = Some (cn_Replicas cn) \<longrightarrow>
                 Replicas (sts_Spec s) = Some (cn_Replicas cn))"
  using assms
  by (auto simp: recCnResources_def recCnResources_applyRes_def client_defs result_defs
        Let_def split_beta setConfHashAnnotation_Inr
      split: if_splits sum.splits)

text \<open>
  At the example cluster with three CN replicas declared: with an autoscaler bound the
  StatefulSet applied has no replica count, without one it has three.
\<close>

theorem recCnResources_replicas_witness:
  "(\<exists>s. CreateOrUpdateCall (StatefulSetObj (Some s)) None \<in>
          set (snd (recCnResources model_deps
                 (store True accept delete_ok
                    (Some (DorisAutoScaler \<lparr>nn_Namespace = ''demo'', nn_Name = ''doris''\<rparr>), None))
                 (cn_cluster 3) [])) \<and>
        Replicas (sts_Spec s) = None) \<and>
   (\<exists>s. CreateOrUpdateCall (StatefulSetObj (Some s)) None \<in>
          set (snd (recCnResources model_deps
                 (store True accept delete_ok (None, None)) (cn_cluster 3) [])) \<and>
        Replicas (sts_Spec s) = Some 3)"
  (is "?bound \<and> ?unbound")
proof
  let ?a = "Some (DorisAutoScaler \<lparr>nn_Namespace = ''demo'', nn_Name = ''doris''\<rparr>)"
  let ?r = "store True accept delete_ok (?a, None)"
  let ?s = "(cn_workload 3)\<lparr>sts_Spec := (sts_Spec (cn_workload 3))\<lparr>Replicas := None\<rparr>\<rparr>"
  have cn: "CN (Spec (cn_cluster 3)) \<noteq> None"
    by (simp add: cn_cluster_def cluster_def)
  have run: "recCnResources model_deps ?r (cn_cluster 3) [] =
               (fst (recCnResources model_deps ?r (cn_cluster 3) []),
                [] @ snd (recCnResources model_deps ?r (cn_cluster 3) []))"
    by simp
  have ev: "CreateOrUpdateCall (StatefulSetObj (Some ?s)) None \<in>
              set (snd (recCnResources model_deps ?r (cn_cluster 3) []))"
    by (simp add: recCnResources_apply_example)
  have lookup: "FindRefDorisAutoScalerCall \<lparr>nn_Namespace = ''demo'', nn_Name = ''doris''\<rparr> ?a None
                  \<in> set (snd (recCnResources model_deps ?r (cn_cluster 3) []))"
    by (simp add: recCnResources_apply_example)
  from recCnResources_replicas [OF cn run ev] lookup
  have "Replicas (sts_Spec ?s) = None"
    by blast
  with ev show ?bound by blast
next
  let ?r = "store True accept delete_ok (None, None)"
  have cn: "CN (Spec (cn_cluster 3)) \<noteq> None"
    by (simp add: cn_cluster_def cluster_def)
  have run: "recCnResources model_deps ?r (cn_cluster 3) [] =
               (fst (recCnResources model_deps ?r (cn_cluster 3) []),
                [] @ snd (recCnResources model_deps ?r (cn_cluster 3) []))"
    by simp
  have ev: "CreateOrUpdateCall (StatefulSetObj (Some (cn_workload 3))) None \<in>
              set (snd (recCnResources model_deps ?r (cn_cluster 3) []))"
    by (simp add: recCnResources_apply_example)
  have lookup: "FindRefDorisAutoScalerCall \<lparr>nn_Namespace = ''demo'', nn_Name = ''doris''\<rparr> None None
                  \<in> set (snd (recCnResources model_deps ?r (cn_cluster 3) []))"
    by (simp add: recCnResources_apply_example)
  have built: "MakeCnStatefulSet (builders model_deps) (cn_cluster 3) =
                 Some (model_StatefulSet (cn_cluster 3) ''-cn'' 3)"
    by (simp add: model_deps_def model_builders_def cn_cluster_def cluster_def)
  from recCnResources_replicas [OF cn run ev] lookup built
  have "Replicas (sts_Spec (cn_workload 3)) = Replicas (sts_Spec (model_StatefulSet (cn_cluster 3) ''-cn'' 3))"
    by fastforce
  then have "Replicas (sts_Spec (cn_workload 3)) = Some 3"
    by (simp add: model_StatefulSet_def)
  with ev show ?unbound by blast
qed

text \<open>
  Claim C6, as the code has it. The autoscaler lookup sits between the apply of the
  peer service and the apply of the StatefulSet. When it returns an error the CN stage
  aborts with that error, under the stage \<open>StageCnStatefulSet\<close> and the apply action, and
  the StatefulSet is not applied; the configuration bundle, the service and the peer
  service have been applied by then, each without an error.
\<close>

theorem recCnResources_lookup_error:
  assumes "CN (Spec cr) \<noteq> None"
    and "recCnResources d r cr tr = (out, tr @ new)"
    and "FindRefDorisAutoScalerCall k a (Some e) \<in> set new"
  shows "(\<exists>res. out = Inr res \<and> Err res = Some e \<and> Stage res = StageCnStatefulSet \<and>
               Action res = StageActionApply) \<and>
         new =
           [CreateOrUpdateCall (ConfigMapObj (MakeCnConfigMap (builders d) cr)) None,
            CreateOrUpdateCall (ServiceObj (MakeCnService (builders d) cr)) None,
            CreateOrUpdateCall (ServiceObj (MakeCnPeerService (builders d) cr)) None,
            FindRefDorisAutoScalerCall (ObjectKeyFromObject cr) a (Some e)] \<and>
         (\<forall>obj e'. CreateOrUpdateCall (StatefulSetObj obj) e' \<notin> set new)"
  using assms
  by (auto simp: recCnResources_def recCnResources_applyRes_def client_defs result_defs
        Let_def split_beta
      split: if_splits sum.splits)

text \<open>
  The CN stage at the example cluster on a store whose autoscaler lookup fails: three
  apply calls precede the lookup.
\<close>

theorem recCnResources_lookup_error_counterexample:
  "recCnResources model_deps
     (store True accept delete_ok (None, Some ''lookup failed'')) (cn_cluster 3) [] =
   (Inr \<lparr>Stage = StageCnStatefulSet, Status = StageResultSucceeded,
         Action = StageActionApply, Err = Some ''lookup failed''\<rparr>,
    [CreateOrUpdateCall (ConfigMapObj (MakeCnConfigMap model_builders (cn_cluster 3))) None,
     CreateOrUpdateCall (ServiceObj (MakeCnService model_builders (cn_cluster 3))) None,
     CreateOrUpdateCall (ServiceObj (MakeCnPeerService model_builders (cn_cluster 3))) None,
     FindRefDorisAutoScalerCall \<lparr>nn_Namespace = ''demo'', nn_Name = ''doris''\<rparr> None
       (Some ''lookup failed'')]) \<and>
   MakeCnConfigMap model_builders (cn_cluster 3) \<noteq> None"
  by (simp add: recCnResources_def recCnResources_applyRes_def client_defs result_defs
      setConfHashAnnotation_def CnConfHashAnnotationKey_def cn_cluster_def
      model_defs Let_def)

text \<open>The same stage on a store whose lookup fails with another error.\<close>

theorem recCnResources_lookup_error_witness:
  "\<exists>res. fst (recCnResources model_deps
              (store True accept delete_ok (None, Some ''no route''))
              (cn_cluster 3) []) = Inr res \<and>
         Err res = Some ''no route'' \<and> Stage res = StageCnStatefulSet \<and>
         Action res = StageActionApply"
proof -
  let ?r = "store True accept delete_ok (None, Some ''no route'')"
  have cn: "CN (Spec (cn_cluster 3)) \<noteq> None"
    by (simp add: cn_cluster_def cluster_def)
  have run: "recCnResources model_deps ?r (cn_cluster 3) [] =
               (fst (recCnResources model_deps ?r (cn_cluster 3) []),
                [] @ snd (recCnResources model_deps ?r (cn_cluster 3) []))"
    by simp
  have lookup: "FindRefDorisAutoScalerCall \<lparr>nn_Namespace = ''demo'', nn_Name = ''doris''\<rparr> None
                  (Some ''no route'')
                  \<in> set (snd (recCnResources model_deps ?r (cn_cluster 3) []))"
    by (simp add: recCnResources_def recCnResources_applyRes_def client_defs result_defs
      setConfHashAnnotation_def CnConfHashAnnotationKey_def cn_cluster_def
      model_defs Let_def)
  from recCnResources_lookup_error [OF cn run lookup] show ?thesis
    by blast
qed

text \<open>
  Claim C2 (the code departs from it). The apply path writes the hash of the bundle's
  data under the role's key into the StatefulSet's own annotation map, not into the
  pod template's: every StatefulSet the CN stage applies carries the pod template as
  the builder made it, and the builder's own annotations with one entry added. The
  four apply paths share the statement; in the FE stage it panics, the FE StatefulSet's
  own annotation map being nil.
\<close>

theorem recCnResources_hash_annotation:
  assumes "CN (Spec cr) \<noteq> None"
    and "recCnResources d r cr tr = (out, tr @ new)"
    and "CreateOrUpdateCall (StatefulSetObj obj) e \<in> set new"
  shows "\<exists>s0 cm m s.
           MakeCnStatefulSet (builders d) cr = Some s0 \<and>
           MakeCnConfigMap (builders d) cr = Some cm \<and>
           Annotations (sts_ObjectMeta s0) = Some m \<and> obj = Some s \<and>
           Annotations (sts_ObjectMeta s) =
             Some (m(CnConfHashAnnotationKey d \<mapsto> MapMd5 (util d) (Data cm))) \<and>
           Template (sts_Spec s) = Template (sts_Spec s0)"
  using assms
  by (auto simp: recCnResources_def recCnResources_applyRes_def client_defs result_defs
        Let_def split_beta setConfHashAnnotation_Inr
      split: if_splits sum.splits)

text \<open>
  At the example cluster: the StatefulSet applied has the hash among its own
  annotations, and the pod template's annotation map is empty.
\<close>

theorem recCnResources_hash_annotation_witness:
  "\<exists>s. CreateOrUpdateCall (StatefulSetObj (Some s)) None \<in>
          set (snd (recCnResources model_deps
                 (store True accept delete_ok (None, None)) (cn_cluster 3) [])) \<and>
       Annotations (sts_ObjectMeta s) =
         Some [''al-assad.github.io/cn-config'' \<mapsto>
                 model_MapMd5 [''cn.conf'' \<mapsto> model_dumpJavaBasedComponentConf Map.empty]] \<and>
       Annotations (tpl_ObjectMeta (Template (sts_Spec s))) = Some Map.empty"
proof -
  let ?r = "store True accept delete_ok (None, None)"
  have cn: "CN (Spec (cn_cluster 3)) \<noteq> None"
    by (simp add: cn_cluster_def cluster_def)
  have run: "recCnResources model_deps ?r (cn_cluster 3) [] =
               (fst (recCnResources model_deps ?r (cn_cluster 3) []),
                [] @ snd (recCnResources model_deps ?r (cn_cluster 3) []))"
    by simp
  have ev: "CreateOrUpdateCall (StatefulSetObj (Some (cn_workload 3))) None \<in>
              set (snd (recCnResources model_deps ?r (cn_cluster 3) []))"
    by (simp add: recCnResources_apply_example)
  have built: "MakeCnStatefulSet (builders model_deps) (cn_cluster 3) =
                 Some (model_StatefulSet (cn_cluster 3) ''-cn'' 3)"
    by (simp add: model_deps_def model_builders_def cn_cluster_def cluster_def)
  from recCnResources_hash_annotation [OF cn run ev] built
  have "Template (sts_Spec (cn_workload 3)) =
          Template (sts_Spec (model_StatefulSet (cn_cluster 3) ''-cn'' 3))"
    by fastforce
  then have "Annotations (tpl_ObjectMeta (Template (sts_Spec (cn_workload 3)))) = Some Map.empty"
    by (simp add: model_StatefulSet_def)
  moreover have "Annotations (sts_ObjectMeta (cn_workload 3)) =
         Some [''al-assad.github.io/cn-config'' \<mapsto>
                 model_MapMd5 [''cn.conf'' \<mapsto> model_dumpJavaBasedComponentConf Map.empty]]"
    by (simp add: cn_workload_def)
  ultimately show ?thesis
    using ev by blast
qed

subsection \<open>FE ports\<close>

text \<open>
  Claim C5 (the code departs from it). \<^verbatim>\<open>GetFeHttpPort\<close>, \<^verbatim>\<open>GetFeQueryPort\<close> and
  \<^verbatim>\<open>GetFeEditLogPort\<close> read the keys \<^verbatim>\<open>http_port\<close>, \<^verbatim>\<open>query_port\<close> and \<^verbatim>\<open>edit_log_port\<close> with
  the defaults 8030, 9030 and 9010. \<^verbatim>\<open>GetFeRpcPort\<close> reads \<^verbatim>\<open>query_port\<close>, not \<^verbatim>\<open>rpc_port\<close>,
  with the default 9020. In \<^verbatim>\<open>MakeFeService\<close> the node port of the \<^verbatim>\<open>http-port\<close> entry is
  the user's \<^verbatim>\<open>QueryPort\<close> override and the node port of the \<^verbatim>\<open>query-port\<close> entry is the
  user's \<^verbatim>\<open>HttpPort\<close> override.
\<close>

theorem FePorts_as_coded:
  assumes "FE (Spec cr) = Some fe"
  shows "GetFeHttpPort d cr = getPortValueFromRawConf (helpers d) (fe_Configs fe) ''http_port'' 8030 \<and>
         GetFeQueryPort d cr = getPortValueFromRawConf (helpers d) (fe_Configs fe) ''query_port'' 9030 \<and>
         GetFeEditLogPort d cr =
           getPortValueFromRawConf (helpers d) (fe_Configs fe) ''edit_log_port'' 9010 \<and>
         GetFeRpcPort d cr = getPortValueFromRawConf (helpers d) (fe_Configs fe) ''query_port'' 9020 \<and>
         (\<forall>sv. fe_Service fe = Some sv \<longrightarrow>
            (\<exists>s. MakeFeService d cr = Some s \<and>
                 map (\<lambda>p. (sp_Name p, NodePort p)) (Ports (svc_Spec s)) =
                   [(''http-port'', case QueryPort sv of Some p \<Rightarrow> p | None \<Rightarrow> 0),
                    (''query-port'', case HttpPort sv of Some p \<Rightarrow> p | None \<Rightarrow> 0)]))"
  using assms
  by (auto simp: GetFeHttpPort_def GetFeQueryPort_def GetFeEditLogPort_def GetFeRpcPort_def
        DefaultFeHttpPort_def DefaultFeQueryPort_def DefaultFeEditLogPort_def
        DefaultFeRpcPort_def MakeFeService_def Let_def
      split: option.splits)

text \<open>
  The cluster whose FE configuration sets \<^verbatim>\<open>rpc_port\<close> to 9021 and whose FE service
  overrides \<^verbatim>\<open>HttpPort\<close> with 30080: the rpc port is the default 9020, and the node port
  30080 is on the \<^verbatim>\<open>query-port\<close> entry.
\<close>

theorem FePorts_as_coded_witness:
  "GetFeRpcPort model_deps
     (cluster
        (Some (fe_spec [''rpc_port'' \<mapsto> ''9021'']
           (Some \<lparr>fesvc_Type = ''NodePort'', fesvc_ExternalTrafficPolicy = None,
                  QueryPort = None, HttpPort = Some 30080\<rparr>) None))
        None None) = 9020 \<and>
   map (\<lambda>p. (sp_Name p, NodePort p))
     (Ports (svc_Spec (the (MakeFeService model_deps
        (cluster
           (Some (fe_spec [''rpc_port'' \<mapsto> ''9021'']
              (Some \<lparr>fesvc_Type = ''NodePort'', fesvc_ExternalTrafficPolicy = None,
                     QueryPort = None, HttpPort = Some 30080\<rparr>) None))
           None None))))) =
   [(''http-port'', 0), (''query-port'', 30080)]"
proof -
  let ?sv = "\<lparr>fesvc_Type = ''NodePort'', fesvc_ExternalTrafficPolicy = None,
                  QueryPort = None, HttpPort = Some (30080 :: int32)\<rparr>"
  let ?fe = "fe_spec [''rpc_port'' \<mapsto> ''9021''] (Some ?sv) None"
  let ?cr = "cluster (Some ?fe) None None"
  have fe: "FE (Spec ?cr) = Some ?fe"
    by (simp add: cluster_def)
  have sv: "fe_Service ?fe = Some ?sv"
    by (simp add: fe_spec_def)
  have conf: "getPortValueFromRawConf (helpers model_deps) (fe_Configs ?fe) ''query_port'' 9020
                = 9020"
    by (simp add: model_deps_def model_helpers_def model_getPortValueFromRawConf_def
        fe_spec_def)
  from FePorts_as_coded [OF fe, of model_deps] sv conf show ?thesis
    by fastforce
qed

text \<open>The stand-in lookup does read a port that is set under the key it is given.\<close>

lemma model_getPortValueFromRawConf_example:
  "model_getPortValueFromRawConf [''rpc_port'' \<mapsto> ''9021''] ''rpc_port'' 9020 = 9021 \<and>
   model_getPortValueFromRawConf [''rpc_port'' \<mapsto> ''9021''] ''query_port'' 9020 = 9020"
  by (simp add: model_getPortValueFromRawConf_def)

subsection \<open>The configuration hash\<close>

text \<open>The canonical rendering can be read back: it tells finite maps apart.\<close>

lemma replicate_sep_inj:
  "c \<noteq> s \<Longrightarrow> replicate n c @ s # u = replicate n' c @ s # v \<Longrightarrow> n = n' \<and> u = v"
proof (induction n arbitrary: n')
  case 0
  then show ?case by (cases n') auto
next
  case (Suc n)
  then show ?case by (cases n') auto
qed

lemma enc_append_inj:
  assumes "enc a @ x = enc b @ y"
  shows "a = b \<and> x = y"
proof -
  from assms have "replicate (length a) (CHR ''#'') @ CHR '':'' # (a @ x) =
      replicate (length b) (CHR ''#'') @ CHR '':'' # (b @ y)"
    by (simp add: enc_def)
  then have "length a = length b \<and> a @ x = b @ y"
    by (intro replicate_sep_inj) auto
  then show ?thesis by auto
qed

lemma enc_entries_inj:
  "concat (map (\<lambda>(k, v). enc k @ enc v) ps) = concat (map (\<lambda>(k, v). enc k @ enc v) qs)
     \<Longrightarrow> ps = qs"
proof (induction ps arbitrary: qs)
  case Nil
  then show ?case by (cases qs) (auto simp: enc_def)
next
  case (Cons p ps)
  show ?case
  proof (cases qs)
    case Nil
    with Cons.prems show ?thesis by (cases p) (auto simp: enc_def)
  next
    case (Cons q qs')
    obtain k v k' v' where p: "p = (k, v)" and q: "q = (k', v')"
      by (cases p, cases q) auto
    let ?f = "\<lambda>(k, v). enc k @ enc v"
    from Cons.prems Cons p q
    have "enc k @ (enc v @ concat (map ?f ps)) = enc k' @ (enc v' @ concat (map ?f qs'))"
      by simp
    then have k: "k = k'" and "enc v @ concat (map ?f ps) = enc v' @ concat (map ?f qs')"
      using enc_append_inj by blast+
    then have v: "v = v'" and "concat (map ?f ps) = concat (map ?f qs')"
      using enc_append_inj by blast+
    with Cons.IH have "ps = qs'" by blast
    with k v p q Cons show ?thesis by simp
  qed
qed

lemma map_of_entries: "finite (dom m) \<Longrightarrow> map_of (entries m) = m"
proof
  fix k
  assume fin: "finite (dom m)"
  show "map_of (entries m) k = m k"
  proof (cases "m k")
    case None
    with fin show ?thesis
      by (simp add: entries_def map_of_map_restrict restrict_map_def dom_def)
  next
    case (Some v)
    then have "k \<in> dom m" by blast
    with fin Some show ?thesis
      by (simp add: entries_def map_of_map_restrict restrict_map_def)
  qed
qed

lemma canonical_inj:
  assumes "finite (dom m)" and "finite (dom m')" and "canonical m = canonical m'"
  shows "m = m'"
proof -
  from assms(3) have "entries m = entries m'"
    unfolding canonical_def by (rule enc_entries_inj)
  then have "map_of (entries m) = map_of (entries m')" by simp
  with assms(1,2) show ?thesis by (simp add: map_of_entries)
qed

text \<open>
  A pass of a declared role starts with the apply of the bundle the role's builder
  made, and every StatefulSet it applies carries, under the role's key, the digest of
  that bundle's data. The FE pass applies no StatefulSet.
\<close>

lemma MakeFeStatefulSet_own_annotations:
  assumes "FE (Spec cr) = Some fe"
  shows "\<exists>s. MakeFeStatefulSet d cr = Some s \<and> Annotations (sts_ObjectMeta s) = None"
  using assms
  by (simp add: MakeFeStatefulSet_def Let_def SetOwnerReference_def Storage_def
      split: option.split)

lemma recFeResources_pass:
  assumes "FE (Spec cr) = Some fe" and "recFeResources d r cr tr = (out, tr @ new)"
  shows "(\<exists>e rest. new = CreateOrUpdateCall (ConfigMapObj (MakeFeConfigMap d cr)) e # rest) \<and>
         (\<forall>s a. CreateOrUpdateCall (StatefulSetObj (Some s)) a \<notin> set new)"
proof -
  from MakeFeStatefulSet_own_annotations [OF assms(1), of d]
  have "setConfHashAnnotation d (MakeFeStatefulSet d cr) (FeConfHashAnnotationKey d)
          (MakeFeConfigMap d cr) = Inl AssignmentToEntryInNilMap"
    by (auto simp: setConfHashAnnotation_def MakeFeConfigMap_def assms(1) Let_def)
  with assms show ?thesis
    by (auto simp: recFeResources_def recFeResources_applyRes_def client_defs result_defs
          Let_def split_beta
        split: if_splits)
qed

lemma recBeResources_pass:
  assumes "BE (Spec cr) = Some be" and "recBeResources d r cr tr = (out, tr @ new)"
  shows "(\<exists>e rest. new =
            CreateOrUpdateCall (ConfigMapObj (MakeBeConfigMap (builders d) cr)) e # rest) \<and>
         (\<forall>s a. CreateOrUpdateCall (StatefulSetObj (Some s)) a \<in> set new \<longrightarrow>
            (\<exists>cm m. MakeBeConfigMap (builders d) cr = Some cm \<and>
               Annotations (sts_ObjectMeta s) = Some m \<and>
               m (BeConfHashAnnotationKey d) = Some (MapMd5 (util d) (Data cm))))"
  using assms
  by (auto simp: recBeResources_def recBeResources_applyRes_def client_defs result_defs
        Let_def split_beta setConfHashAnnotation_Inr
      split: if_splits sum.splits)

lemma recCnResources_pass:
  assumes "CN (Spec cr) = Some cn" and "recCnResources d r cr tr = (out, tr @ new)"
  shows "(\<exists>e rest. new =
            CreateOrUpdateCall (ConfigMapObj (MakeCnConfigMap (builders d) cr)) e # rest) \<and>
         (\<forall>s a. CreateOrUpdateCall (StatefulSetObj (Some s)) a \<in> set new \<longrightarrow>
            (\<exists>cm m. MakeCnConfigMap (builders d) cr = Some cm \<and>
               Annotations (sts_ObjectMeta s) = Some m \<and>
               m (CnConfHashAnnotationKey d) = Some (MapMd5 (util d) (Data cm))))"
  using assms
  by (auto simp: recCnResources_def recCnResources_applyRes_def client_defs result_defs
        Let_def split_beta setConfHashAnnotation_Inr
      split: if_splits sum.splits)

lemma recBrokerResources_pass:
  assumes "Broker (Spec cr) = Some b" and "recBrokerResources d r cr tr = (out, tr @ new)"
  shows "(\<exists>e rest. new =
            CreateOrUpdateCall (ConfigMapObj (MakeBrokerConfigMap (builders d) cr)) e # rest) \<and>
         (\<forall>s a. CreateOrUpdateCall (StatefulSetObj (Some s)) a \<in> set new \<longrightarrow>
            (\<exists>cm m. MakeBrokerConfigMap (builders d) cr = Some cm \<and>
               Annotations (sts_ObjectMeta s) = Some m \<and>
               m (BrokerConfHashAnnotationKey d) = Some (MapMd5 (util d) (Data cm))))"
  using assms
  by (auto simp: recBrokerResources_def recBrokerResources_applyRes_def client_defs result_defs
        Let_def split_beta setConfHashAnnotation_Inr
      split: if_splits sum.splits)

lemma role_stage_pass:
  assumes "role_configs X cr = Some c" and "role_stage X d r cr tr = (out, tr @ new)"
  shows "(\<exists>e rest. new = CreateOrUpdateCall (ConfigMapObj (role_bundle X d cr)) e # rest) \<and>
         (\<forall>s a. CreateOrUpdateCall (StatefulSetObj (Some s)) a \<in> set new \<longrightarrow>
            (\<exists>cm m. role_bundle X d cr = Some cm \<and>
               Annotations (sts_ObjectMeta s) = Some m \<and>
               m (role_hash_key X d) = Some (MapMd5 (util d) (Data cm))))"
proof (cases X)
  case RoleFe
  with assms obtain fe where "FE (Spec cr) = Some fe"
    by (auto simp: role_configs_def)
  from recFeResources_pass [OF this, of d r tr out new] assms(2) RoleFe show ?thesis
    by (simp add: role_stage_def role_bundle_def role_hash_key_def)
next
  case RoleBe
  with assms obtain be where "BE (Spec cr) = Some be"
    by (auto simp: role_configs_def)
  from recBeResources_pass [OF this, of d r tr out new] assms(2) RoleBe show ?thesis
    by (simp add: role_stage_def role_bundle_def role_hash_key_def)
next
  case RoleCn
  with assms obtain cn where "CN (Spec cr) = Some cn"
    by (auto simp: role_configs_def)
  from recCnResources_pass [OF this, of d r tr out new] assms(2) RoleCn show ?thesis
    by (simp add: role_stage_def role_bundle_def role_hash_key_def)
next
  case RoleBroker
  with assms obtain b where "Broker (Spec cr) = Some b"
    by (auto simp: role_configs_def)
  from recBrokerResources_pass [OF this, of d r tr out new] assms(2) RoleBroker show ?thesis
    by (simp add: role_stage_def role_bundle_def role_hash_key_def)
qed

text \<open>
  The data of a role's bundle: the rendered configuration entries under the role's
  file name, merged with the Hadoop configuration when the cluster declares one. For
  FE this is \<^verbatim>\<open>MakeFeConfigMap\<close> of the source.
\<close>

lemma MakeFeConfigMap_Data:
  assumes "FE (Spec cr) = Some fe"
  shows "\<exists>cm. MakeFeConfigMap d cr = Some cm \<and>
           Data cm =
             (case HadoopConf (Spec cr) of
                None \<Rightarrow> [''fe.conf'' \<mapsto> dumpJavaBasedComponentConf (helpers d) (fe_Configs fe)]
              | Some hc \<Rightarrow>
                  MergeMaps (util d) (Config hc)
                    [''fe.conf'' \<mapsto> dumpJavaBasedComponentConf (helpers d) (fe_Configs fe)])"
  using assms by (simp add: MakeFeConfigMap_def Let_def split: option.split)

lemma role_bundle_Data:
  "\<exists>file. \<forall>cr c. role_configs X cr = Some c \<longrightarrow>
     (\<exists>cm. role_bundle X model_deps cr = Some cm \<and>
        Data cm =
          (case HadoopConf (Spec cr) of
             None \<Rightarrow> [file \<mapsto> canonical c]
           | Some hc \<Rightarrow> Config hc ++ [file \<mapsto> canonical c]))"
proof (cases X)
  case RoleFe
  have "\<forall>cr c. role_configs X cr = Some c \<longrightarrow>
     (\<exists>cm. role_bundle X model_deps cr = Some cm \<and>
        Data cm =
          (case HadoopConf (Spec cr) of
             None \<Rightarrow> [''fe.conf'' \<mapsto> canonical c]
           | Some hc \<Rightarrow> Config hc ++ [''fe.conf'' \<mapsto> canonical c]))"
    using RoleFe
    by (auto simp: role_configs_def role_bundle_def MakeFeConfigMap_def Let_def
          model_deps_def model_util_def model_helpers_def model_MergeMaps_def
          model_dumpJavaBasedComponentConf_def
        split: option.splits)
  then show ?thesis by blast
next
  case RoleBe
  have "\<forall>cr c. role_configs X cr = Some c \<longrightarrow>
     (\<exists>cm. role_bundle X model_deps cr = Some cm \<and>
        Data cm =
          (case HadoopConf (Spec cr) of
             None \<Rightarrow> [''be.conf'' \<mapsto> canonical c]
           | Some hc \<Rightarrow> Config hc ++ [''be.conf'' \<mapsto> canonical c]))"
    using RoleBe
    by (auto simp: role_configs_def role_bundle_def model_deps_def model_builders_def
          model_ConfigMap_def model_MergeMaps_def model_dumpJavaBasedComponentConf_def
        split: option.splits)
  then show ?thesis by blast
next
  case RoleCn
  have "\<forall>cr c. role_configs X cr = Some c \<longrightarrow>
     (\<exists>cm. role_bundle X model_deps cr = Some cm \<and>
        Data cm =
          (case HadoopConf (Spec cr) of
             None \<Rightarrow> [''cn.conf'' \<mapsto> canonical c]
           | Some hc \<Rightarrow> Config hc ++ [''cn.conf'' \<mapsto> canonical c]))"
    using RoleCn
    by (auto simp: role_configs_def role_bundle_def model_deps_def model_builders_def
          model_ConfigMap_def model_MergeMaps_def model_dumpJavaBasedComponentConf_def
        split: option.splits)
  then show ?thesis by blast
next
  case RoleBroker
  have "\<forall>cr c. role_configs X cr = Some c \<longrightarrow>
     (\<exists>cm. role_bundle X model_deps cr = Some cm \<and>
        Data cm =
          (case HadoopConf (Spec cr) of
             None \<Rightarrow> [''broker.conf'' \<mapsto> canonical c]
           | Some hc \<Rightarrow> Config hc ++ [''broker.conf'' \<mapsto> canonical c]))"
    using RoleBroker
    by (auto simp: role_configs_def role_bundle_def model_deps_def model_builders_def
          model_ConfigMap_def model_MergeMaps_def model_dumpJavaBasedComponentConf_def
        split: option.splits)
  then show ?thesis by blast
qed

lemma MapMd5_model_deps: "MapMd5 (util model_deps) = canonical"
  by (simp add: model_deps_def model_util_def model_MapMd5_def)

text \<open>
  Claim C9, with the Hadoop configuration excepted. The stage functions and
  \<^verbatim>\<open>MakeFeConfigMap\<close> are the source's; the renderer, the digest, the merge and the
  bundles of BE, CN and Broker are those of \<open>model_deps\<close>. For every role \<open>X\<close> and any
  two passes over clusters that declare it: each pass first applies the bundle the
  role's builder made, and every StatefulSet the pass applies carries, under the
  role's key, the hash of that bundle's data (the FE pass applies none). The hash is
  a function of the bundle's data alone, and it tells bundles apart: the two hashes
  are equal exactly when the data are. The two clusters have the same hash when they
  agree on the role's configuration entries and on the Hadoop configuration, which is
  merged into the bundle, whatever else differs (the affinity, say); and the hashes
  differ whenever the role's configuration entries differ. The configuration maps are
  finite, as Go maps are.
\<close>

theorem ConfigHash_dependencies:
  assumes "role_configs X cr = Some c" and "role_configs X cr' = Some c'"
    and "finite (dom c)" and "finite (dom c')"
    and "\<forall>hc. HadoopConf (Spec cr) = Some hc \<longrightarrow> finite (dom (Config hc))"
    and "\<forall>hc. HadoopConf (Spec cr') = Some hc \<longrightarrow> finite (dom (Config hc))"
    and "role_stage X model_deps r cr tr = (out, tr @ new)"
    and "role_stage X model_deps r' cr' tr' = (out', tr' @ new')"
  shows "\<exists>cm cm' e e' rest rest'.
           role_bundle X model_deps cr = Some cm \<and>
           role_bundle X model_deps cr' = Some cm' \<and>
           new = CreateOrUpdateCall (ConfigMapObj (Some cm)) e # rest \<and>
           new' = CreateOrUpdateCall (ConfigMapObj (Some cm')) e' # rest' \<and>
           (\<forall>s a. CreateOrUpdateCall (StatefulSetObj (Some s)) a \<in> set new \<longrightarrow>
              (\<exists>m. Annotations (sts_ObjectMeta s) = Some m \<and>
                 m (role_hash_key X model_deps) = Some (MapMd5 (util model_deps) (Data cm)))) \<and>
           (\<forall>s a. CreateOrUpdateCall (StatefulSetObj (Some s)) a \<in> set new' \<longrightarrow>
              (\<exists>m. Annotations (sts_ObjectMeta s) = Some m \<and>
                 m (role_hash_key X model_deps) = Some (MapMd5 (util model_deps) (Data cm')))) \<and>
           (MapMd5 (util model_deps) (Data cm) = MapMd5 (util model_deps) (Data cm')
              \<longleftrightarrow> Data cm = Data cm') \<and>
           (c = c' \<and>
            map_option Config (HadoopConf (Spec cr)) = map_option Config (HadoopConf (Spec cr'))
              \<longrightarrow> MapMd5 (util model_deps) (Data cm) = MapMd5 (util model_deps) (Data cm')) \<and>
           (c \<noteq> c' \<longrightarrow>
              MapMd5 (util model_deps) (Data cm) \<noteq> MapMd5 (util model_deps) (Data cm'))"
proof -
  from role_bundle_Data [of X] obtain f where
    shape: "\<And>cr c. role_configs X cr = Some c \<Longrightarrow>
       \<exists>cm. role_bundle X model_deps cr = Some cm \<and>
          Data cm =
            (case HadoopConf (Spec cr) of
               None \<Rightarrow> [f \<mapsto> canonical c]
             | Some hc \<Rightarrow> Config hc ++ [f \<mapsto> canonical c])"
    by blast
  from shape [OF assms(1)] obtain cm where
    cm: "role_bundle X model_deps cr = Some cm" and
    data: "Data cm = (case HadoopConf (Spec cr) of
               None \<Rightarrow> [f \<mapsto> canonical c]
             | Some hc \<Rightarrow> Config hc ++ [f \<mapsto> canonical c])"
    by blast
  from shape [OF assms(2)] obtain cm' where
    cm': "role_bundle X model_deps cr' = Some cm'" and
    data': "Data cm' = (case HadoopConf (Spec cr') of
               None \<Rightarrow> [f \<mapsto> canonical c']
             | Some hc \<Rightarrow> Config hc ++ [f \<mapsto> canonical c'])"
    by blast
  have fin: "finite (dom (Data cm))"
    using assms(5) by (simp add: data split: option.split)
  have fin': "finite (dom (Data cm'))"
    using assms(6) by (simp add: data' split: option.split)
  have at_f: "Data cm f = Some (canonical c)" "Data cm' f = Some (canonical c')"
    by (simp_all add: data data' split: option.split)
  from role_stage_pass [OF assms(1) assms(7)] cm obtain e rest where
    new: "new = CreateOrUpdateCall (ConfigMapObj (Some cm)) e # rest" and
    stamped: "\<forall>s a. CreateOrUpdateCall (StatefulSetObj (Some s)) a \<in> set new \<longrightarrow>
              (\<exists>m. Annotations (sts_ObjectMeta s) = Some m \<and>
                 m (role_hash_key X model_deps) = Some (MapMd5 (util model_deps) (Data cm)))"
    by auto
  from role_stage_pass [OF assms(2) assms(8)] cm' obtain e' rest' where
    new': "new' = CreateOrUpdateCall (ConfigMapObj (Some cm')) e' # rest'" and
    stamped': "\<forall>s a. CreateOrUpdateCall (StatefulSetObj (Some s)) a \<in> set new' \<longrightarrow>
              (\<exists>m. Annotations (sts_ObjectMeta s) = Some m \<and>
                 m (role_hash_key X model_deps) = Some (MapMd5 (util model_deps) (Data cm')))"
    by auto
  have iff: "MapMd5 (util model_deps) (Data cm) = MapMd5 (util model_deps) (Data cm')
              \<longleftrightarrow> Data cm = Data cm'"
    using canonical_inj [OF fin fin'] by (auto simp: MapMd5_model_deps)
  have same: "Data cm = Data cm'"
    if "c = c'"
      and "map_option Config (HadoopConf (Spec cr)) = map_option Config (HadoopConf (Spec cr'))"
    using that by (auto simp: data data' split: option.splits)
  have differ: "Data cm \<noteq> Data cm'" if "c \<noteq> c'"
  proof
    assume "Data cm = Data cm'"
    with at_f have "canonical c = canonical c'" by simp
    with canonical_inj [OF assms(3) assms(4)] that show False by blast
  qed
  from cm cm' new new' stamped stamped' iff same differ show ?thesis
    by (intro exI [of _ cm] exI [of _ cm'] exI [of _ e] exI [of _ e'] exI [of _ rest]
        exI [of _ rest']) (simp add: iff)
qed

text \<open>
  Two example clusters that declare FE and differ in the Hadoop configuration only, a
  field outside the FE sub-specification: the hashes of the bundles \<^verbatim>\<open>MakeFeConfigMap\<close>
  builds differ.
\<close>

theorem ConfigHash_dependencies_counterexample:
  "FE (Spec (cluster (Some (fe_spec Map.empty None None)) None
               (Some \<lparr>Hosts = [], Config = [''core-site.xml'' \<mapsto> ''hdfs://a'']\<rparr>))) =
   FE (Spec (cluster (Some (fe_spec Map.empty None None)) None
               (Some \<lparr>Hosts = [], Config = [''core-site.xml'' \<mapsto> ''hdfs://b'']\<rparr>))) \<and>
   MapMd5 (util model_deps)
     (Data (the (MakeFeConfigMap model_deps
        (cluster (Some (fe_spec Map.empty None None)) None
           (Some \<lparr>Hosts = [], Config = [''core-site.xml'' \<mapsto> ''hdfs://a'']\<rparr>))))) \<noteq>
   MapMd5 (util model_deps)
     (Data (the (MakeFeConfigMap model_deps
        (cluster (Some (fe_spec Map.empty None None)) None
           (Some \<lparr>Hosts = [], Config = [''core-site.xml'' \<mapsto> ''hdfs://b'']\<rparr>)))))"
proof -
  let ?A = "[''core-site.xml'' \<mapsto> ''hdfs://a''] ++ [''fe.conf'' \<mapsto> canonical Map.empty]"
  let ?B = "[''core-site.xml'' \<mapsto> ''hdfs://b''] ++ [''fe.conf'' \<mapsto> canonical Map.empty]"
  have "?A ''core-site.xml'' \<noteq> ?B ''core-site.xml''"
    by simp
  then have "?A \<noteq> ?B"
    by metis
  moreover have "finite (dom ?A)" "finite (dom ?B)"
    by simp_all
  ultimately have "canonical ?A \<noteq> canonical ?B"
    using canonical_inj by blast
  then show ?thesis
    by (simp add: MakeFeConfigMap_def Let_def model_defs fe_spec_def model_MapMd5_def
        model_MergeMaps_def model_dumpJavaBasedComponentConf_def)
qed

text \<open>
  Example clusters without a Hadoop configuration. With CN declared and the CN port
  changed from one pass to the next, the StatefulSets applied carry different hashes
  under the CN key. With FE declared, the hash of the bundle stays as it is when the
  affinity changes and changes when \<^verbatim>\<open>http_port\<close> does.
\<close>

theorem ConfigHash_dependencies_witness:
  "(\<exists>s s' h h'.
      CreateOrUpdateCall (StatefulSetObj (Some s)) None \<in>
        set (snd (recCnResources model_deps (store True accept delete_ok (None, None))
                    (cluster None (Some \<lparr>cn_Replicas = 3, cn_Configs = [''be_port'' \<mapsto> ''9060'']\<rparr>)
                       None) [])) \<and>
      CreateOrUpdateCall (StatefulSetObj (Some s')) None \<in>
        set (snd (recCnResources model_deps (store True accept delete_ok (None, None))
                    (cluster None (Some \<lparr>cn_Replicas = 3, cn_Configs = [''be_port'' \<mapsto> ''9061'']\<rparr>)
                       None) [])) \<and>
      the (Annotations (sts_ObjectMeta s)) (CnConfHashAnnotationKey model_deps) = Some h \<and>
      the (Annotations (sts_ObjectMeta s')) (CnConfHashAnnotationKey model_deps) = Some h' \<and>
      h \<noteq> h') \<and>
   MapMd5 (util model_deps)
     (Data (the (MakeFeConfigMap model_deps
        (cluster (Some (fe_spec [''http_port'' \<mapsto> ''8030''] None None)) None None)))) =
   MapMd5 (util model_deps)
     (Data (the (MakeFeConfigMap model_deps
        (cluster (Some (fe_spec [''http_port'' \<mapsto> ''8030''] None (Some ''zone-a''))) None None)))) \<and>
   MapMd5 (util model_deps)
     (Data (the (MakeFeConfigMap model_deps
        (cluster (Some (fe_spec [''http_port'' \<mapsto> ''8030''] None None)) None None)))) \<noteq>
   MapMd5 (util model_deps)
     (Data (the (MakeFeConfigMap model_deps
        (cluster (Some (fe_spec [''http_port'' \<mapsto> ''8040''] None None)) None None))))"
  (is "?stamped \<and> ?same \<and> ?changed")
proof (intro conjI)
  define r where "r = store True accept delete_ok (None, None)"
  define c where "c = [''be_port'' \<mapsto> ''9060'']"
  define c' where "c' = [''be_port'' \<mapsto> ''9061'']"
  define cr where "cr = cluster None (Some \<lparr>cn_Replicas = 3, cn_Configs = c\<rparr>) None"
  define cr' where "cr' = cluster None (Some \<lparr>cn_Replicas = 3, cn_Configs = c'\<rparr>) None"
  define new where "new = snd (recCnResources model_deps r cr [])"
  define new' where "new' = snd (recCnResources model_deps r cr' [])"
  define key where "key = CnConfHashAnnotationKey model_deps"
  have conf: "role_configs RoleCn cr = Some c" "role_configs RoleCn cr' = Some c'"
    by (simp_all add: role_configs_def cluster_def cr_def cr'_def)
  have fin: "finite (dom c)" "finite (dom c')"
    by (simp_all add: c_def c'_def)
  have hc: "\<forall>hc. HadoopConf (Spec cr) = Some hc \<longrightarrow> finite (dom (Config hc))"
    "\<forall>hc. HadoopConf (Spec cr') = Some hc \<longrightarrow> finite (dom (Config hc))"
    by (simp_all add: cluster_def cr_def cr'_def)
  have run: "role_stage RoleCn model_deps r cr [] =
               (fst (recCnResources model_deps r cr []), [] @ new)"
    "role_stage RoleCn model_deps r cr' [] =
               (fst (recCnResources model_deps r cr' []), [] @ new')"
    by (simp_all add: role_stage_def new_def new'_def)
  have "\<exists>s. CreateOrUpdateCall (StatefulSetObj (Some s)) None \<in> set new"
    by (simp add: new_def r_def cr_def recCnResources_def recCnResources_applyRes_def
        client_defs result_defs setConfHashAnnotation_def model_defs Let_def)
  then obtain s where s: "CreateOrUpdateCall (StatefulSetObj (Some s)) None \<in> set new"
    by blast
  have "\<exists>s. CreateOrUpdateCall (StatefulSetObj (Some s)) None \<in> set new'"
    by (simp add: new'_def r_def cr'_def recCnResources_def recCnResources_applyRes_def
        client_defs result_defs setConfHashAnnotation_def model_defs Let_def)
  then obtain s' where s': "CreateOrUpdateCall (StatefulSetObj (Some s')) None \<in> set new'"
    by blast
  have "c ''be_port'' \<noteq> c' ''be_port''"
    by (simp add: c_def c'_def)
  then have neq: "c \<noteq> c'"
    by metis
  from ConfigHash_dependencies [OF conf fin hc run]
  have "\<exists>(cm :: ConfigMap) (cm' :: ConfigMap).
    (\<forall>s a. CreateOrUpdateCall (StatefulSetObj (Some s)) a \<in> set new \<longrightarrow>
              (\<exists>m. Annotations (sts_ObjectMeta s) = Some m \<and>
                 m (role_hash_key RoleCn model_deps) = Some (MapMd5 (util model_deps) (Data cm)))) \<and>
    (\<forall>s a. CreateOrUpdateCall (StatefulSetObj (Some s)) a \<in> set new' \<longrightarrow>
              (\<exists>m. Annotations (sts_ObjectMeta s) = Some m \<and>
                 m (role_hash_key RoleCn model_deps) = Some (MapMd5 (util model_deps) (Data cm')))) \<and>
    (c \<noteq> c' \<longrightarrow>
          MapMd5 (util model_deps) (Data cm) \<noteq> MapMd5 (util model_deps) (Data cm'))"
    by (elim exE conjE) (intro exI conjI; assumption)
  then obtain cm cm' :: ConfigMap where
    st: "\<forall>s a. CreateOrUpdateCall (StatefulSetObj (Some s)) a \<in> set new \<longrightarrow>
              (\<exists>m. Annotations (sts_ObjectMeta s) = Some m \<and>
                 m (role_hash_key RoleCn model_deps) = Some (MapMd5 (util model_deps) (Data cm)))" and
    st': "\<forall>s a. CreateOrUpdateCall (StatefulSetObj (Some s)) a \<in> set new' \<longrightarrow>
              (\<exists>m. Annotations (sts_ObjectMeta s) = Some m \<and>
                 m (role_hash_key RoleCn model_deps) = Some (MapMd5 (util model_deps) (Data cm')))" and
    d: "c \<noteq> c' \<longrightarrow>
          MapMd5 (util model_deps) (Data cm) \<noteq> MapMd5 (util model_deps) (Data cm')"
    by blast
  have k: "role_hash_key RoleCn model_deps = key"
    by (simp add: role_hash_key_def key_def)
  from st s k obtain m where
    "Annotations (sts_ObjectMeta s) = Some m" "m key = Some (MapMd5 (util model_deps) (Data cm))"
    by metis
  then have h: "the (Annotations (sts_ObjectMeta s)) key = Some (MapMd5 (util model_deps) (Data cm))"
    by simp
  from st' s' k obtain m' where
    "Annotations (sts_ObjectMeta s') = Some m'" "m' key = Some (MapMd5 (util model_deps) (Data cm'))"
    by metis
  then have h': "the (Annotations (sts_ObjectMeta s')) key = Some (MapMd5 (util model_deps) (Data cm'))"
    by simp
  from d neq have "MapMd5 (util model_deps) (Data cm) \<noteq> MapMd5 (util model_deps) (Data cm')"
    by blast
  with s s' h h' have
    "\<exists>s s' h h'.
      CreateOrUpdateCall (StatefulSetObj (Some s)) None \<in> set new \<and>
      CreateOrUpdateCall (StatefulSetObj (Some s')) None \<in> set new' \<and>
      the (Annotations (sts_ObjectMeta s)) key = Some h \<and>
      the (Annotations (sts_ObjectMeta s')) key = Some h' \<and> h \<noteq> h'"
    by blast
  then show ?stamped
    by (simp only: new_def new'_def r_def cr_def cr'_def c_def c'_def key_def)
next
  define r where "r = store True accept delete_ok (None, None)"
  define c where "c = [''http_port'' \<mapsto> ''8030'']"
  define cr where "cr = cluster (Some (fe_spec c None None)) None None"
  define cr' where "cr' = cluster (Some (fe_spec c None (Some ''zone-a''))) None None"
  have conf: "role_configs RoleFe cr = Some c" "role_configs RoleFe cr' = Some c"
    by (simp_all add: role_configs_def cluster_def fe_spec_def cr_def cr'_def)
  have fin: "finite (dom c)"
    by (simp add: c_def)
  have hc: "\<forall>hc. HadoopConf (Spec cr) = Some hc \<longrightarrow> finite (dom (Config hc))"
    "\<forall>hc. HadoopConf (Spec cr') = Some hc \<longrightarrow> finite (dom (Config hc))"
    by (simp_all add: cluster_def cr_def cr'_def)
  have same_hc: "map_option Config (HadoopConf (Spec cr)) = map_option Config (HadoopConf (Spec cr'))"
    by (simp add: cluster_def cr_def cr'_def)
  have run: "role_stage RoleFe model_deps r cr [] =
               (fst (recFeResources model_deps r cr []),
                [] @ snd (recFeResources model_deps r cr []))"
    "role_stage RoleFe model_deps r cr' [] =
               (fst (recFeResources model_deps r cr' []),
                [] @ snd (recFeResources model_deps r cr' []))"
    by (simp_all add: role_stage_def)
  from ConfigHash_dependencies [OF conf fin fin hc run]
  have "\<exists>cm cm'. role_bundle RoleFe model_deps cr = Some cm \<and>
      role_bundle RoleFe model_deps cr' = Some cm' \<and>
      (c = c \<and>
       map_option Config (HadoopConf (Spec cr)) = map_option Config (HadoopConf (Spec cr'))
         \<longrightarrow> MapMd5 (util model_deps) (Data cm) = MapMd5 (util model_deps) (Data cm'))"
    by (elim exE conjE) (intro exI conjI; assumption)
  with same_hc obtain cm cm' where
    "role_bundle RoleFe model_deps cr = Some cm" "role_bundle RoleFe model_deps cr' = Some cm'"
    "MapMd5 (util model_deps) (Data cm) = MapMd5 (util model_deps) (Data cm')"
    by blast
  then have "MapMd5 (util model_deps) (Data (the (MakeFeConfigMap model_deps cr))) =
             MapMd5 (util model_deps) (Data (the (MakeFeConfigMap model_deps cr')))"
    by (simp add: role_bundle_def)
  then show ?same
    unfolding cr_def cr'_def c_def .
next
  define r where "r = store True accept delete_ok (None, None)"
  define c where "c = [''http_port'' \<mapsto> ''8030'']"
  define c' where "c' = [''http_port'' \<mapsto> ''8040'']"
  define cr where "cr = cluster (Some (fe_spec c None None)) None None"
  define cr' where "cr' = cluster (Some (fe_spec c' None None)) None None"
  have conf: "role_configs RoleFe cr = Some c" "role_configs RoleFe cr' = Some c'"
    by (simp_all add: role_configs_def cluster_def fe_spec_def cr_def cr'_def)
  have fin: "finite (dom c)" "finite (dom c')"
    by (simp_all add: c_def c'_def)
  have hc: "\<forall>hc. HadoopConf (Spec cr) = Some hc \<longrightarrow> finite (dom (Config hc))"
    "\<forall>hc. HadoopConf (Spec cr') = Some hc \<longrightarrow> finite (dom (Config hc))"
    by (simp_all add: cluster_def cr_def cr'_def)
  have "c ''http_port'' \<noteq> c' ''http_port''"
    by (simp add: c_def c'_def)
  then have neq: "c \<noteq> c'"
    by metis
  have run: "role_stage RoleFe model_deps r cr [] =
               (fst (recFeResources model_deps r cr []),
                [] @ snd (recFeResources model_deps r cr []))"
    "role_stage RoleFe model_deps r cr' [] =
               (fst (recFeResources model_deps r cr' []),
                [] @ snd (recFeResources model_deps r cr' []))"
    by (simp_all add: role_stage_def)
  from ConfigHash_dependencies [OF conf fin hc run]
  have "\<exists>cm cm'. role_bundle RoleFe model_deps cr = Some cm \<and>
      role_bundle RoleFe model_deps cr' = Some cm' \<and>
      (c \<noteq> c' \<longrightarrow>
         MapMd5 (util model_deps) (Data cm) \<noteq> MapMd5 (util model_deps) (Data cm'))"
    by (elim exE conjE) (intro exI conjI; assumption)
  with neq obtain cm cm' where
    "role_bundle RoleFe model_deps cr = Some cm" "role_bundle RoleFe model_deps cr' = Some cm'"
    "MapMd5 (util model_deps) (Data cm) \<noteq> MapMd5 (util model_deps) (Data cm')"
    by blast
  then have "MapMd5 (util model_deps) (Data (the (MakeFeConfigMap model_deps cr))) \<noteq>
             MapMd5 (util model_deps) (Data (the (MakeFeConfigMap model_deps cr')))"
    by (simp add: role_bundle_def)
  then show ?changed
    unfolding cr_def cr'_def c_def c'_def .
qed

end
